theory Spec2Isabelle
  imports Main "HOL-Library.AList"
begin

section \<open>The chat relay of server.js: data model\<close>

text \<open>
  The server keeps two global objects, \<open>rooms\<close> and \<open>socketToUserMap\<close>, and registers six
  handlers on every socket. Each handler runs to completion before the next event is
  taken, so one event is one function from the state to either a thrown \<open>TypeError\<close> or the
  new state with the events emitted, in the order of the \<open>emit\<close> calls. Every throw of a
  handler comes before its first assignment, so a throw leaves no state behind.

  What the model takes from outside server.js:
  \<^item> Strings are sequences of code units below 256.
  \<^item> The payload of an event is an object; a field that JavaScript reads as \<open>undefined\<close>
    is \<open>None\<close>, and the fields that the handlers read are strings when present. The client
    of \<open>check_room\<close> passes the acknowledgement callback.
  \<^item> \<open>Date.now()\<close> and \<open>new Date().toLocaleTimeString()\<close> are inputs of the event.
  \<^item> \<open>emit\<close> encodes its arguments when it is called, so an emitted array is the array as
    it is at that line.
  \<^item> A socket id is the transport's random identifier, never the name of a property of
    \<open>Object.prototype\<close>, so \<open>socketToUserMap\<close> is a plain map.
\<close>

datatype error = TypeError

text \<open>An entry of \<open>rooms[room].users\<close>: \<open>{ socketId, username }\<close>.\<close>

record member =
  socketId :: string
  username :: string

text \<open>
  A stored message: the chat record \<open>{ ...messageData, userId, messageId }\<close> of
  \<open>send_message\<close>, or the system record \<open>{ message, time, messageId, type: 'system' }\<close>.
\<close>

datatype msg =
  Chat (sender: string) (message: string) (time: string) (userId: string) (messageId: string)
| System (message: string) (time: string) (messageId: string)

text \<open>
  A room \<open>{ users: {}, messages: [] }\<close>. \<open>users\<close> is an object whose keys are usernames;
  the list keeps the insertion order that \<open>Object.values\<close> reports.
\<close>

record room =
  users :: "(string \<times> member) list"
  messages :: "msg list"

text \<open>An entry of \<open>socketToUserMap\<close>: \<open>{ username, room }\<close>.\<close>

record user_info =
  ui_username :: string
  ui_room :: string

text \<open>
  The state: the two global objects, and for every room name the sockets that socket.io
  holds in it (\<open>socket.join\<close>, \<open>socket.leave\<close>). socket.io also keeps every socket in a room
  named by its own id; the theorems below hold for any content of \<open>adapter\<close>, and the room
  names of the scenario are not socket ids.
\<close>

record state =
  rooms :: "string \<rightharpoonup> room"
  socketToUserMap :: "string \<rightharpoonup> user_info"
  adapter :: "string \<Rightarrow> string set"

text \<open>The reading of the clock that one event sees.\<close>

record clock =
  now :: nat
  toLocaleTimeString :: string

text \<open>What \<open>check_room\<close> hands to its callback: \<open>undefined\<close>, \<open>false\<close> or \<open>true\<close>.\<close>

datatype js_value = JUndefined | JBool bool


datatype out_event =
  Callback js_value
| Join_error string
| Chat_history "msg list"
| User_list "member list"
| System_message msg
| Join_success
| Receive_message msg
| User_typing string string

text \<open>One emitted event: the sockets it is sent to, resolved when \<open>emit\<close> is called.\<close>

type_synonym emission = "string set \<times> out_event"

text \<open>\<open>socket.emit\<close>, \<open>io.to(room).emit\<close> and \<open>socket.to(room).emit\<close>.\<close>

definition socket_emit :: "string \<Rightarrow> out_event \<Rightarrow> emission" where
  "socket_emit sid ev = ({sid}, ev)"

definition io_to :: "(string \<Rightarrow> string set) \<Rightarrow> string \<Rightarrow> out_event \<Rightarrow> emission" where
  "io_to ad room ev = (ad room, ev)"

definition socket_to :: "(string \<Rightarrow> string set) \<Rightarrow> string \<Rightarrow> string \<Rightarrow> out_event \<Rightarrow> emission" where
  "socket_to ad sid room ev = (ad room - {sid}, ev)"

record join_payload =
  jp_username :: "string option"
  jp_roomId :: "string option"

record message_data =
  md_username :: "string option"
  md_message :: "string option"
  md_time :: "string option"

record send_payload =
  sp_messageData :: "message_data option"
  sp_roomId :: "string option"

datatype event =
  Check_room "string option"
| Join_room join_payload
| Send_message send_payload
| Typing "string option"
| Leave_room "string option"
| Disconnect

section \<open>Strings\<close>

text \<open>\<open>String.prototype.trim\<close>: white space and line terminators below 256.\<close>

definition is_space :: "char \<Rightarrow> bool" where
  "is_space c = (c \<in> set [CHR 0x09, CHR 0x0A, CHR 0x0B, CHR 0x0C, CHR 0x0D, CHR 0x20, CHR 0xA0])"

definition trim :: "string \<Rightarrow> string" where
  "trim s = rev (dropWhile is_space (rev (dropWhile is_space s)))"

text \<open>\<open>String.prototype.toLowerCase\<close> on code units below 256.\<close>

definition lower_char :: "char \<Rightarrow> char" where
  "lower_char c =
     (let n = (of_char c :: nat)
      in if (65 \<le> n \<and> n \<le> 90) \<or> (192 \<le> n \<and> n \<le> 222 \<and> n \<noteq> 215)
         then char_of (n + 32) else c)"

definition toLowerCase :: "string \<Rightarrow> string" where
  "toLowerCase s = map lower_char s"

text \<open>The decimal text of a number, as string concatenation and template literals write it.\<close>

fun toString_nat :: "nat \<Rightarrow> string" where
  "toString_nat n =
     (if n < 10 then [''0123456789'' ! n]
      else toString_nat (n div 10) @ [''0123456789'' ! (n mod 10)])"

declare toString_nat.simps [simp del]

text \<open>\<open>\<^verbatim>\<open>\d\<close>\<close> and the character class of \<open>specialCharRegex\<close>.\<close>

definition is_digit :: "char \<Rightarrow> bool" where
  "is_digit c = (c \<in> set ''0123456789'')"

definition special_chars :: string where
  "special_chars =
     ''!@#$%^&*()_+-=[]{};'' @ [CHR 0x27] @ '':'' @ [CHR 0x22, CHR 0x5C] @ ''|,.<>?'' @
     [CHR 0x60] @ ''~''"

definition is_special :: "char \<Rightarrow> bool" where
  "is_special c = (c \<in> set special_chars)"

section \<open>validateUsername\<close>

definition validateUsername :: "string \<Rightarrow> string option" where
  "validateUsername u =
     (if length u < 5 then Some ''Username must be at least 5 characters long.''
      else let numberCount = length (filter is_digit u)
        in if numberCount < 2 then Some ''Username must contain at least 2 numbers.''
        else if \<not> list_ex is_special u
          then Some ''Username must contain at least 1 special character (e.g., !@#$%).''
        else None)"

section \<open>Property lookup on the global objects\<close>

text \<open>
  \<open>rooms\<close> and every \<open>users\<close> are object literals, so \<open>rooms[room]\<close> finds an own
  property first and a property of \<open>Object.prototype\<close> otherwise. The inherited values are
  functions or the prototype object: truthy, with no \<open>users\<close> and no \<open>messages\<close>.
\<close>

definition object_prototype_keys :: "string list" where
  "object_prototype_keys =
     [''constructor'', ''__defineGetter__'', ''__defineSetter__'', ''hasOwnProperty'',
      ''__lookupGetter__'', ''__lookupSetter__'', ''isPrototypeOf'', ''propertyIsEnumerable'',
      ''toString'', ''valueOf'', ''__proto__'', ''toLocaleString'']"

datatype lookup = Undefined | Own room | Inherited

definition rooms_get :: "(string \<rightharpoonup> room) \<Rightarrow> string \<Rightarrow> lookup" where
  "rooms_get rs name =
     (case rs name of
        Some r \<Rightarrow> Own r
      | None \<Rightarrow> if name \<in> set object_prototype_keys then Inherited else Undefined)"

text \<open>Whether \<open>users[name]\<close> is truthy.\<close>

definition users_has :: "(string \<times> member) list \<Rightarrow> string \<Rightarrow> bool" where
  "users_has us name = (name \<in> set object_prototype_keys \<or> map_of us name \<noteq> None)"

text \<open>\<open>roomId || 'public'\<close>.\<close>

definition resolve_room :: "string option \<Rightarrow> string" where
  "resolve_room roomId =
     (case roomId of None \<Rightarrow> ''public'' | Some r \<Rightarrow> if r = [] then ''public'' else r)"

section \<open>The handlers\<close>

type_synonym result = "error + state \<times> emission list"

text \<open>The state of line 14 to 18, before any socket has joined.\<close>

definition init :: state where
  "init = \<lparr>rooms = [''public'' \<mapsto> \<lparr>users = [], messages = []\<rparr>],
           socketToUserMap = Map.empty,
           adapter = (\<lambda>_. {})\<rparr>"

text \<open>
  \<open>check_room\<close>, lines 44 to 49. The conjunction \<open>rooms[room] && ...\<close> is \<open>undefined\<close> for
  a room that is not there, and \<open>Object.keys\<close> throws on the \<open>undefined\<close> users of an
  inherited property.
\<close>

definition check_room :: "state \<Rightarrow> string \<Rightarrow> string option \<Rightarrow> result" where
  "check_room st sid roomId =
     (let room = resolve_room roomId
      in case rooms_get (rooms st) room of
           Undefined \<Rightarrow> Inr (st, [socket_emit sid (Callback JUndefined)])
         | Inherited \<Rightarrow> Inl TypeError
         | Own r \<Rightarrow> Inr (st, [socket_emit sid (Callback (JBool (length (users r) > 0)))]))"

text \<open>Lines 71 to 98 of \<open>join_room\<close>: what runs once both checks have passed.\<close>

definition join_accept :: "state \<Rightarrow> string \<Rightarrow> clock \<Rightarrow> string \<Rightarrow> string \<Rightarrow> string \<Rightarrow> result" where
  "join_accept st sid clk raw standardizedUsername room =
     (let ad = (adapter st)(room := insert sid (adapter st room));
          r0 = (case rooms st room of None \<Rightarrow> \<lparr>users = [], messages = []\<rparr> | Some r \<Rightarrow> r);
          r1 = r0\<lparr>users := AList.update standardizedUsername
                              \<lparr>socketId = sid, username = standardizedUsername\<rparr> (users r0)\<rparr>;
          m = (socketToUserMap st)(sid \<mapsto> \<lparr>ui_username = standardizedUsername, ui_room = room\<rparr>);
          e1 = socket_emit sid (Chat_history (messages r1));
          e2 = io_to ad room (User_list (map snd (users r1)));
          systemMessageData =
            System (raw @ '' joined the chat'') (toLocaleTimeString clk)
                   (''system-'' @ toString_nat (now clk) @ ''-'' @ sid);
          r2 = r1\<lparr>messages := messages r1 @ [systemMessageData]\<rparr>;
          e3 = io_to ad room (System_message systemMessageData);
          e4 = socket_emit sid Join_success
      in Inr (\<lparr>rooms = (rooms st)(room \<mapsto> r2), socketToUserMap = m, adapter = ad\<rparr>,
              [e1, e2, e3, e4]))"

text \<open>
  \<open>join_room\<close>, lines 51 to 99. \<open>username.trim()\<close> throws when the payload has no username,
  and line 65 throws when \<open>rooms[room]\<close> is an inherited property.
\<close>

definition join_room :: "state \<Rightarrow> string \<Rightarrow> clock \<Rightarrow> join_payload \<Rightarrow> result" where
  "join_room st sid clk p =
     (let room = resolve_room (jp_roomId p)
      in case jp_username p of
           None \<Rightarrow> Inl TypeError
         | Some raw \<Rightarrow>
             (let standardizedUsername = toLowerCase (trim raw)
              in case validateUsername standardizedUsername of
                   Some validationError \<Rightarrow> Inr (st, [socket_emit sid (Join_error validationError)])
                 | None \<Rightarrow>
                     (case rooms_get (rooms st) room of
                        Inherited \<Rightarrow> Inl TypeError
                      | Undefined \<Rightarrow> join_accept st sid clk raw standardizedUsername room
                      | Own r \<Rightarrow>
                          if users_has (users r) standardizedUsername
                          then Inr (st, [socket_emit sid
                                           (Join_error ''Username already taken in this room.'')])
                          else join_accept st sid clk raw standardizedUsername room)))"

text \<open>
  \<open>send_message\<close>, lines 101 to 115. The payload is tested first; \<open>rooms[room].messages.push\<close>
  then throws unless the room is an own entry of \<open>rooms\<close>.
\<close>

definition send_message :: "state \<Rightarrow> string \<Rightarrow> clock \<Rightarrow> send_payload \<Rightarrow> result" where
  "send_message st sid clk p =
     (let room = resolve_room (sp_roomId p)
      in case sp_messageData p of
           None \<Rightarrow> Inr (st, [])
         | Some md \<Rightarrow>
             (case (md_username md, md_message md, md_time md) of
                (Some u, Some b, Some t) \<Rightarrow>
                  if u \<noteq> [] \<and> b \<noteq> [] \<and> t \<noteq> [] then
                    (case rooms_get (rooms st) room of
                       Own r \<Rightarrow>
                         (let messageId = toString_nat (now clk) @ ''-'' @ sid;
                              fullMessageData = Chat u b t sid messageId;
                              r' = r\<lparr>messages := messages r @ [fullMessageData]\<rparr>
                          in Inr (st\<lparr>rooms := (rooms st)(room \<mapsto> r')\<rparr>,
                                  [io_to (adapter st) room (Receive_message fullMessageData)]))
                     | _ \<Rightarrow> Inl TypeError)
                  else Inr (st, [])
              | _ \<Rightarrow> Inr (st, [])))"

text \<open>\<open>typing\<close>, lines 117 to 123.\<close>

definition typing :: "state \<Rightarrow> string \<Rightarrow> string option \<Rightarrow> result" where
  "typing st sid roomId =
     (let room = resolve_room roomId
      in case socketToUserMap st sid of
           None \<Rightarrow> Inr (st, [])
         | Some userInfo \<Rightarrow>
             (case rooms_get (rooms st) room of
                Undefined \<Rightarrow> Inr (st, [])
              | _ \<Rightarrow> Inr (st, [socket_to (adapter st) sid room
                                  (User_typing sid (ui_username userInfo))])))"

text \<open>
  Lines 131 to 146 and 156 to 169: the leave record, the removal of the member and the
  clean-up of an empty room, shared by \<open>leave_room\<close> and \<open>disconnect\<close>. \<open>ad1\<close> holds the
  sockets when the system message goes out, \<open>ad2\<close> when the user list does;
  \<open>to_all\<close> tells \<open>io.to(room)\<close> from \<open>socket.to(room)\<close>.
\<close>

definition remove_user ::
  "state \<Rightarrow> string \<Rightarrow> clock \<Rightarrow> string \<Rightarrow> room \<Rightarrow> string \<Rightarrow> bool \<Rightarrow>
   (string \<Rightarrow> string set) \<Rightarrow> (string \<Rightarrow> string set) \<Rightarrow> state \<times> emission list" where
  "remove_user st sid clk room r name to_all ad1 ad2 =
     (let systemMessageData =
            System (name @ '' left the chat'') (toLocaleTimeString clk)
                   (''system-'' @ toString_nat (now clk) @ ''-'' @ sid);
          r1 = r\<lparr>messages := messages r @ [systemMessageData]\<rparr>;
          e1 = (if to_all then io_to ad1 room (System_message systemMessageData)
                else socket_to ad1 sid room (System_message systemMessageData));
          r2 = r1\<lparr>users := AList.delete name (users r1)\<rparr>;
          e2 = io_to ad2 room (User_list (map snd (users r2)));
          rs = (if room \<noteq> ''public'' \<and> length (users r2) = 0
                then (rooms st)(room := None) else (rooms st)(room \<mapsto> r2))
      in (\<lparr>rooms = rs, socketToUserMap = (socketToUserMap st)(sid := None), adapter = ad2\<rparr>,
          [e1, e2]))"

text \<open>\<open>leave_room\<close>, lines 125 to 148: the room is the one the payload names.\<close>

definition leave_room :: "state \<Rightarrow> string \<Rightarrow> clock \<Rightarrow> string option \<Rightarrow> result" where
  "leave_room st sid clk roomId =
     (let room = resolve_room roomId
      in case socketToUserMap st sid of
           None \<Rightarrow> Inr (st, [])
         | Some userInfo \<Rightarrow>
             (case rooms_get (rooms st) room of
                Undefined \<Rightarrow> Inr (st, [])
              | Inherited \<Rightarrow> Inl TypeError
              | Own r \<Rightarrow>
                  if users_has (users r) (ui_username userInfo)
                  then Inr (remove_user st sid clk room r (ui_username userInfo) True
                              (adapter st)
                              ((adapter st)(room := adapter st room - {sid})))
                  else Inr (st, [])))"

text \<open>
  \<open>disconnect\<close>, lines 150 to 173: the room is the one of the socket's own entry. socket.io
  has taken the socket out of every room before the handler runs.
\<close>

definition disconnect :: "state \<Rightarrow> string \<Rightarrow> clock \<Rightarrow> result" where
  "disconnect st sid clk =
     (let ad = (\<lambda>room. adapter st room - {sid})
      in case socketToUserMap st sid of
           None \<Rightarrow> Inr (st\<lparr>adapter := ad\<rparr>, [])
         | Some userInfo \<Rightarrow>
             (let room = ui_room userInfo
              in case rooms_get (rooms st) room of
                   Undefined \<Rightarrow>
                     Inr (st\<lparr>socketToUserMap := (socketToUserMap st)(sid := None),
                              adapter := ad\<rparr>, [])
                 | Inherited \<Rightarrow> Inl TypeError
                 | Own r \<Rightarrow>
                     if users_has (users r) (ui_username userInfo)
                     then Inr (remove_user st sid clk room r (ui_username userInfo) False ad ad)
                     else Inr (st\<lparr>socketToUserMap := (socketToUserMap st)(sid := None),
                                   adapter := ad\<rparr>, [])))"

text \<open>One inbound event on socket \<open>sid\<close>.\<close>

fun handle :: "state \<Rightarrow> string \<Rightarrow> clock \<Rightarrow> event \<Rightarrow> result" where
  "handle st sid clk (Check_room roomId) = check_room st sid roomId"
| "handle st sid clk (Join_room p) = join_room st sid clk p"
| "handle st sid clk (Send_message p) = send_message st sid clk p"
| "handle st sid clk (Typing roomId) = typing st sid roomId"
| "handle st sid clk (Leave_room roomId) = leave_room st sid clk roomId"
| "handle st sid clk Disconnect = disconnect st sid clk"

text \<open>The states the server can be in: those that events lead to without a throw.\<close>

inductive reachable :: "state \<Rightarrow> bool" where
  reachable_init: "reachable init"
| reachable_step: "reachable st \<Longrightarrow> handle st sid clk ev = Inr (st', out) \<Longrightarrow> reachable st'"

text \<open>The stored history of a room, empty for a room that has no entry.\<close>

definition history :: "state \<Rightarrow> string \<Rightarrow> msg list" where
  "history st room = (case rooms st room of None \<Rightarrow> [] | Some r \<Rightarrow> messages r)"

text \<open>The members of a room as a map, empty for a room that has no entry.\<close>

definition members :: "state \<Rightarrow> string \<Rightarrow> (string \<rightharpoonup> member)" where
  "members st room = (case rooms st room of None \<Rightarrow> Map.empty | Some r \<Rightarrow> map_of (users r))"

section \<open>Invariant of the room table\<close>


section \<open>A scenario\<close>

text \<open>
  Socket \<open>s1\<close> joins room \<open>team\<close> as \<open>alice12!\<close>; the states below are the ones the
  scenario passes through, written out.
\<close>

definition clk0 :: clock where
  "clk0 = \<lparr>now = 1700000000000, toLocaleTimeString = ''10:00:00 AM''\<rparr>"

definition clk1 :: clock where
  "clk1 = \<lparr>now = 1700000000500, toLocaleTimeString = ''10:00:01 AM''\<rparr>"

definition alice_joined :: msg where
  "alice_joined = System ''alice12! joined the chat'' ''10:00:00 AM'' ''system-1700000000000-s1''"

definition alice_member :: "string \<Rightarrow> member" where
  "alice_member sid = \<lparr>socketId = sid, username = ''alice12!''\<rparr>"

definition st_team :: state where
  "st_team =
     \<lparr>rooms = [''public'' \<mapsto> \<lparr>users = [], messages = []\<rparr>,
               ''team'' \<mapsto> \<lparr>users = [(''alice12!'', alice_member ''s1'')],
                              messages = [alice_joined]\<rparr>],
      socketToUserMap = [''s1'' \<mapsto> \<lparr>ui_username = ''alice12!'', ui_room = ''team''\<rparr>],
      adapter = (\<lambda>_. {})(''team'' := {''s1''})\<rparr>"

definition clk2 :: clock where
  "clk2 = \<lparr>now = 1700000001000, toLocaleTimeString = ''10:00:02 AM''\<rparr>"

definition bobby_joined :: msg where
  "bobby_joined = System ''bobby34! joined the chat'' ''10:00:01 AM'' ''system-1700000000500-s2''"

definition bobby_member :: "string \<Rightarrow> member" where
  "bobby_member sid = \<lparr>socketId = sid, username = ''bobby34!''\<rparr>"

text \<open>After \<open>s2\<close> has joined \<open>team\<close> as \<open>bobby34!\<close>.\<close>

definition st_team2 :: state where
  "st_team2 =
     \<lparr>rooms = [''public'' \<mapsto> \<lparr>users = [], messages = []\<rparr>,
               ''team'' \<mapsto> \<lparr>users = [(''alice12!'', alice_member ''s1''),
                                       (''bobby34!'', bobby_member ''s2'')],
                              messages = [alice_joined, bobby_joined]\<rparr>],
      socketToUserMap = [''s1'' \<mapsto> \<lparr>ui_username = ''alice12!'', ui_room = ''team''\<rparr>,
                         ''s2'' \<mapsto> \<lparr>ui_username = ''bobby34!'', ui_room = ''team''\<rparr>],
      adapter = (\<lambda>_. {})(''team'' := {''s2'', ''s1''})\<rparr>"

text \<open>After \<open>s1\<close>, still in \<open>team\<close> as \<open>alice12!\<close>, has joined \<open>dev\<close> as \<open>bobby34!\<close>.\<close>

definition st_stale :: state where
  "st_stale =
     \<lparr>rooms = [''public'' \<mapsto> \<lparr>users = [], messages = []\<rparr>,
               ''team'' \<mapsto> \<lparr>users = [(''alice12!'', alice_member ''s1'')],
                              messages = [alice_joined]\<rparr>,
               ''dev'' \<mapsto> \<lparr>users = [(''bobby34!'', bobby_member ''s1'')],
                             messages = [System ''bobby34! joined the chat'' ''10:00:01 AM''
                                           ''system-1700000000500-s1'']\<rparr>],
      socketToUserMap = [''s1'' \<mapsto> \<lparr>ui_username = ''bobby34!'', ui_room = ''dev''\<rparr>],
      adapter = (\<lambda>_. {})(''team'' := {''s1''}, ''dev'' := {''s1''})\<rparr>"

text \<open>After \<open>s2\<close> has joined room \<open>dev\<close> under the same name \<open>alice12!\<close>.\<close>

definition st_two :: state where
  "st_two =
     \<lparr>rooms = [''public'' \<mapsto> \<lparr>users = [], messages = []\<rparr>,
               ''team'' \<mapsto> \<lparr>users = [(''alice12!'', alice_member ''s1'')],
                              messages = [alice_joined]\<rparr>,
               ''dev'' \<mapsto> \<lparr>users = [(''alice12!'', alice_member ''s2'')],
                             messages = [System ''alice12! joined the chat'' ''10:00:01 AM''
                                           ''system-1700000000500-s2'']\<rparr>],
      socketToUserMap = [''s1'' \<mapsto> \<lparr>ui_username = ''alice12!'', ui_room = ''team''\<rparr>,
                         ''s2'' \<mapsto> \<lparr>ui_username = ''alice12!'', ui_room = ''dev''\<rparr>],
      adapter = (\<lambda>_. {})(''team'' := {''s1''}, ''dev'' := {''s2''})\<rparr>"

text \<open>The state from \<open>init\<close> when \<open>s1\<close> joins \<open>team\<close> with the raw name \<open>\<^verbatim>\<open> Alice12! \<close>\<close>.\<close>

definition st_team_raw :: state where
  "st_team_raw =
     \<lparr>rooms = [''public'' \<mapsto> \<lparr>users = [], messages = []\<rparr>,
               ''team'' \<mapsto> \<lparr>users = [(''alice12!'', alice_member ''s1'')],
                              messages = [System '' Alice12!  joined the chat'' ''10:00:00 AM''
                                            ''system-1700000000000-s1'']\<rparr>],
      socketToUserMap = [''s1'' \<mapsto> \<lparr>ui_username = ''alice12!'', ui_room = ''team''\<rparr>],
      adapter = (\<lambda>_. {})(''team'' := {''s1''})\<rparr>"

text \<open>After \<open>s1\<close> has sent \<open>hi\<close> to \<open>team\<close> at \<open>clk1\<close>.\<close>

definition hi_message :: msg where
  "hi_message = Chat ''alice12!'' ''hi'' ''10:00:01 AM'' ''s1'' ''1700000000500-s1''"

definition st_msg :: state where
  "st_msg =
     \<lparr>rooms = [''public'' \<mapsto> \<lparr>users = [], messages = []\<rparr>,
               ''team'' \<mapsto> \<lparr>users = [(''alice12!'', alice_member ''s1'')],
                              messages = [alice_joined, hi_message]\<rparr>],
      socketToUserMap = [''s1'' \<mapsto> \<lparr>ui_username = ''alice12!'', ui_room = ''team''\<rparr>],
      adapter = (\<lambda>_. {})(''team'' := {''s1''})\<rparr>"

definition hi_payload :: "string \<Rightarrow> send_payload" where
  "hi_payload body =
     \<lparr>sp_messageData = Some \<lparr>md_username = Some ''alice12!'', md_message = Some body,
                              md_time = Some ''10:00:01 AM''\<rparr>,
      sp_roomId = Some ''team''\<rparr>"

text \<open>After \<open>s1\<close>, the only member, has left \<open>team\<close>.\<close>

definition st_left :: state where
  "st_left =
     \<lparr>rooms = [''public'' \<mapsto> \<lparr>users = [], messages = []\<rparr>],
      socketToUserMap = Map.empty,
      adapter = (\<lambda>_. {})(''team'' := {})\<rparr>"

text \<open>
  Socket \<open>s1\<close> joins \<open>public\<close> as \<open>alice12!\<close>, leaves it and joins it again, all three events
  at the clock reading \<open>clk0\<close>: the states after the first, the second and the third event.
\<close>

definition alice_left :: msg where
  "alice_left = System ''alice12! left the chat'' ''10:00:00 AM'' ''system-1700000000000-s1''"

definition alice_join_public :: join_payload where
  "alice_join_public = \<lparr>jp_username = Some ''alice12!'', jp_roomId = None\<rparr>"

definition st_public1 :: state where
  "st_public1 =
     \<lparr>rooms = [''public'' \<mapsto> \<lparr>users = [(''alice12!'', alice_member ''s1'')],
                                messages = [alice_joined]\<rparr>],
      socketToUserMap = [''s1'' \<mapsto> \<lparr>ui_username = ''alice12!'', ui_room = ''public''\<rparr>],
      adapter = (\<lambda>_. {})(''public'' := {''s1''})\<rparr>"

definition st_public2 :: state where
  "st_public2 =
     \<lparr>rooms = [''public'' \<mapsto> \<lparr>users = [], messages = [alice_joined, alice_left]\<rparr>],
      socketToUserMap = Map.empty,
      adapter = (\<lambda>_. {})(''public'' := {})\<rparr>"

definition st_public3 :: state where
  "st_public3 =
     \<lparr>rooms = [''public'' \<mapsto> \<lparr>users = [(''alice12!'', alice_member ''s1'')],
                                messages = [alice_joined, alice_left, alice_joined]\<rparr>],
      socketToUserMap = [''s1'' \<mapsto> \<lparr>ui_username = ''alice12!'', ui_room = ''public''\<rparr>],
      adapter = (\<lambda>_. {})(''public'' := {''s1''})\<rparr>"

text \<open>A state written by hand, which no run reaches: the short name \<open>bo1\<close> is a member.\<close>

definition st_short_member :: state where
  "st_short_member =
     \<lparr>rooms = [''public'' \<mapsto> \<lparr>users = [], messages = []\<rparr>,
               ''team'' \<mapsto> \<lparr>users = [(''bo1'', \<lparr>socketId = ''s1'', username = ''bo1''\<rparr>)],
                              messages = []\<rparr>],
      socketToUserMap = [''s1'' \<mapsto> \<lparr>ui_username = ''bo1'', ui_room = ''team''\<rparr>],
      adapter = (\<lambda>_. {})(''team'' := {''s1''})\<rparr>"

section \<open>Evaluation on the scenario\<close>

lemmas lookup_defs = resolve_room_def rooms_get_def users_has_def

lemmas emit_defs = socket_emit_def io_to_def socket_to_def

lemma toString_nat_clk0: "toString_nat 1700000000000 = ''1700000000000''"
  by (simp add: toString_nat.simps)

lemma toString_nat_clk1: "toString_nat 1700000000500 = ''1700000000500''"
  by (simp add: toString_nat.simps)

lemma toString_nat_clk2: "toString_nat 1700000001000 = ''1700000001000''"
  by (simp add: toString_nat.simps)

lemma standardize_alice: "toLowerCase (trim ''alice12!'') = ''alice12!''"
  by code_simp

lemma standardize_Alice_padded: "toLowerCase (trim '' Alice12! '') = ''alice12!''"
  by code_simp

lemma standardize_bobby: "toLowerCase (trim ''bobby34!'') = ''bobby34!''"
  by code_simp

lemma standardize_bo1: "toLowerCase (trim ''bo1'') = ''bo1''"
  by code_simp

lemma standardize_alice1: "toLowerCase (trim ''alice1!'') = ''alice1!''"
  by code_simp

lemma standardize_alice12: "toLowerCase (trim ''alice12'') = ''alice12''"
  by code_simp

lemma validate_alice: "validateUsername ''alice12!'' = None"
  by code_simp

lemma validate_bobby: "validateUsername ''bobby34!'' = None"
  by code_simp


lemma team_not_inherited: "''team'' \<notin> set object_prototype_keys"
  by code_simp

lemma dev_not_inherited: "''dev'' \<notin> set object_prototype_keys"
  by code_simp

lemma alice_not_inherited: "''alice12!'' \<notin> set object_prototype_keys"
  by code_simp

lemma bobby_not_inherited: "''bobby34!'' \<notin> set object_prototype_keys"
  by code_simp

lemma join_team_alice:
  "join_room init ''s1'' clk0 \<lparr>jp_username = Some ''alice12!'', jp_roomId = Some ''team''\<rparr> =
     Inr (st_team,
          [({''s1''}, Chat_history []),
           ({''s1''}, User_list [alice_member ''s1'']),
           ({''s1''}, System_message alice_joined),
           ({''s1''}, Join_success)])"
  by (simp add: join_room_def join_accept_def lookup_defs emit_defs standardize_alice
      validate_alice team_not_inherited init_def st_team_def clk0_def toString_nat_clk0
      alice_joined_def alice_member_def Let_def)

lemma join_team_raw:
  "join_room init ''s1'' clk0 \<lparr>jp_username = Some '' Alice12! '', jp_roomId = Some ''team''\<rparr> =
     Inr (st_team_raw,
          [({''s1''}, Chat_history []),
           ({''s1''}, User_list [alice_member ''s1'']),
           ({''s1''}, System_message
              (System '' Alice12!  joined the chat'' ''10:00:00 AM'' ''system-1700000000000-s1'')),
           ({''s1''}, Join_success)])"
  by (simp add: join_room_def join_accept_def lookup_defs emit_defs standardize_Alice_padded
      validate_alice team_not_inherited init_def st_team_raw_def clk0_def toString_nat_clk0
      alice_member_def Let_def)

lemma join_team_bobby:
  "join_room st_team ''s2'' clk1 \<lparr>jp_username = Some ''bobby34!'', jp_roomId = Some ''team''\<rparr> =
     Inr (st_team2,
          [({''s2''}, Chat_history [alice_joined]),
           ({''s2'', ''s1''}, User_list [alice_member ''s1'', bobby_member ''s2'']),
           ({''s2'', ''s1''}, System_message bobby_joined),
           ({''s2''}, Join_success)])"
  by (simp add: join_room_def join_accept_def lookup_defs emit_defs standardize_bobby
      validate_bobby bobby_not_inherited st_team_def st_team2_def clk1_def toString_nat_clk1
      alice_member_def bobby_member_def bobby_joined_def Let_def)

lemma join_dev_alice:
  "join_room st_team ''s2'' clk1 \<lparr>jp_username = Some ''alice12!'', jp_roomId = Some ''dev''\<rparr> =
     Inr (st_two,
          [({''s2''}, Chat_history []),
           ({''s2''}, User_list [alice_member ''s2'']),
           ({''s2''}, System_message
              (System ''alice12! joined the chat'' ''10:00:01 AM'' ''system-1700000000500-s2'')),
           ({''s2''}, Join_success)])"
  by (simp add: join_room_def join_accept_def lookup_defs emit_defs standardize_alice
      validate_alice dev_not_inherited st_team_def st_two_def clk1_def toString_nat_clk1
      alice_member_def Let_def)

lemma join_dev_bobby_again:
  "join_room st_team ''s1'' clk1 \<lparr>jp_username = Some ''bobby34!'', jp_roomId = Some ''dev''\<rparr> =
     Inr (st_stale,
          [({''s1''}, Chat_history []),
           ({''s1''}, User_list [bobby_member ''s1'']),
           ({''s1''}, System_message
              (System ''bobby34! joined the chat'' ''10:00:01 AM'' ''system-1700000000500-s1'')),
           ({''s1''}, Join_success)])"
  by (simp add: join_room_def join_accept_def lookup_defs emit_defs standardize_bobby
      validate_bobby dev_not_inherited st_team_def st_stale_def clk1_def toString_nat_clk1
      alice_member_def bobby_member_def Let_def)

lemma send_hi:
  "send_message st_team ''s1'' clk1 (hi_payload ''hi'') =
     Inr (st_msg, [({''s1''}, Receive_message hi_message)])"
  by (simp add: send_message_def lookup_defs emit_defs st_team_def st_msg_def hi_payload_def
      hi_message_def clk1_def toString_nat_clk1 Let_def)

lemma send_again:
  "send_message st_msg ''s1'' clk1 (hi_payload ''again'') =
     Inr (st_msg\<lparr>rooms := (rooms st_msg)(''team'' \<mapsto>
                  \<lparr>users = [(''alice12!'', alice_member ''s1'')],
                   messages = [alice_joined, hi_message,
                     Chat ''alice12!'' ''again'' ''10:00:01 AM'' ''s1'' ''1700000000500-s1'']\<rparr>)\<rparr>,
          [({''s1''}, Receive_message
             (Chat ''alice12!'' ''again'' ''10:00:01 AM'' ''s1'' ''1700000000500-s1''))])"
  by (simp add: send_message_def lookup_defs emit_defs st_msg_def hi_payload_def
      clk1_def toString_nat_clk1 Let_def)


lemma leave_team_raw:
  "leave_room st_team_raw ''s1'' clk1 (Some ''team'') =
     Inr (st_left,
          [({''s1''}, System_message
              (System ''alice12! left the chat'' ''10:00:01 AM'' ''system-1700000000500-s1'')),
           ({}, User_list [])])"
  by (simp add: leave_room_def remove_user_def lookup_defs emit_defs st_team_raw_def st_left_def
      clk1_def toString_nat_clk1 alice_member_def Let_def AList.delete_eq)


lemma join_public_alice:
  "join_room init ''s1'' clk0 alice_join_public =
     Inr (st_public1,
          [({''s1''}, Chat_history []),
           ({''s1''}, User_list [alice_member ''s1'']),
           ({''s1''}, System_message alice_joined),
           ({''s1''}, Join_success)])"
  by (simp add: join_room_def join_accept_def lookup_defs emit_defs standardize_alice
      validate_alice alice_not_inherited alice_join_public_def init_def st_public1_def clk0_def
      toString_nat_clk0 alice_joined_def alice_member_def Let_def)

lemma leave_public_alice:
  "leave_room st_public1 ''s1'' clk0 None =
     Inr (st_public2,
          [({''s1''}, System_message alice_left),
           ({}, User_list [])])"
  by (simp add: leave_room_def remove_user_def lookup_defs emit_defs st_public1_def
      st_public2_def clk0_def toString_nat_clk0 alice_left_def alice_member_def Let_def
      AList.delete_eq)

lemma join_public_alice_again:
  "join_room st_public2 ''s1'' clk0 alice_join_public =
     Inr (st_public3,
          [({''s1''}, Chat_history [alice_joined, alice_left]),
           ({''s1''}, User_list [alice_member ''s1'']),
           ({''s1''}, System_message alice_joined),
           ({''s1''}, Join_success)])"
  by (simp add: join_room_def join_accept_def lookup_defs emit_defs standardize_alice
      validate_alice alice_not_inherited alice_join_public_def st_public2_def st_public3_def
      clk0_def toString_nat_clk0 alice_joined_def alice_member_def Let_def)

lemma reachable_st_team: "reachable st_team"
  using reachable_step [OF reachable_init, of "''s1''" clk0 "Join_room _"] join_team_alice
  by simp

lemma reachable_st_two: "reachable st_two"
  using reachable_step [OF reachable_st_team, of "''s2''" clk1 "Join_room _"] join_dev_alice
  by simp


section \<open>Username validation\<close>

lemma inherited_invalid: "\<forall>k \<in> set object_prototype_keys. validateUsername k \<noteq> None"
  by code_simp

lemma valid_not_inherited: "validateUsername u = None \<Longrightarrow> u \<notin> set object_prototype_keys"
  using inherited_invalid by blast

lemma users_has_valid:
  "validateUsername u = None \<Longrightarrow> users_has us u = (map_of us u \<noteq> None)"
  by (simp add: users_has_def valid_not_inherited)

lemma validateUsername_cases:
  "validateUsername u =
     (if length u < 5 then Some ''Username must be at least 5 characters long.''
      else if length (filter is_digit u) < 2 then Some ''Username must contain at least 2 numbers.''
      else if \<forall>c \<in> set u. \<not> is_special c
        then Some ''Username must contain at least 1 special character (e.g., !@#$%).''
      else None)"
  by (simp add: validateUsername_def Let_def list_ex_iff)

lemma join_room_invalid:
  "validateUsername (toLowerCase (trim raw)) = Some e \<Longrightarrow>
   join_room st sid clk \<lparr>jp_username = Some raw, jp_roomId = roomId\<rparr> =
     Inr (st, [({sid}, Join_error e)])"
  by (simp add: join_room_def Let_def socket_emit_def)

lemma join_room_valid:
  "validateUsername (toLowerCase (trim raw)) = None \<Longrightarrow>
   join_room st sid clk \<lparr>jp_username = Some raw, jp_roomId = roomId\<rparr> =
     (case rooms_get (rooms st) (resolve_room roomId) of
        Inherited \<Rightarrow> Inl TypeError
      | Undefined \<Rightarrow> join_accept st sid clk raw (toLowerCase (trim raw)) (resolve_room roomId)
      | Own r \<Rightarrow>
          if map_of (users r) (toLowerCase (trim raw)) \<noteq> None
          then Inr (st, [({sid}, Join_error ''Username already taken in this room.'')])
          else join_accept st sid clk raw (toLowerCase (trim raw)) (resolve_room roomId))"
  by (simp add: join_room_def Let_def socket_emit_def users_has_valid split: lookup.splits)

text \<open>
  C6. \<open>join_room\<close> validates the standardized username \<open>u\<close> (trimmed, lower-cased) before it
  looks at the room. It checks, in this order, that \<open>u\<close> has at least 5 characters, at
  least 2 decimal digits and at least 1 character of the special-character class, and
  answers the first failing check with its message as \<open>join_error\<close> to the requesting
  socket, in every state: whether the name is taken plays no part. A name that passes the
  three checks passes validation, and only then the room lookup and the uniqueness check
  decide.
\<close>

theorem join_room_checks_format_first:
  "let u = toLowerCase (trim raw); p = \<lparr>jp_username = Some raw, jp_roomId = roomId\<rparr>
   in (length u < 5 \<longrightarrow>
         join_room st sid clk p =
           Inr (st, [({sid}, Join_error ''Username must be at least 5 characters long.'')])) \<and>
      (5 \<le> length u \<and> length (filter is_digit u) < 2 \<longrightarrow>
         join_room st sid clk p =
           Inr (st, [({sid}, Join_error ''Username must contain at least 2 numbers.'')])) \<and>
      (5 \<le> length u \<and> 2 \<le> length (filter is_digit u) \<and> (\<forall>c \<in> set u. \<not> is_special c) \<longrightarrow>
         join_room st sid clk p =
           Inr (st, [({sid}, Join_error
              ''Username must contain at least 1 special character (e.g., !@#$%).'')])) \<and>
      (5 \<le> length u \<and> 2 \<le> length (filter is_digit u) \<and> (\<exists>c \<in> set u. is_special c) \<longrightarrow>
         validateUsername u = None \<and>
         join_room st sid clk p =
           (case rooms_get (rooms st) (resolve_room roomId) of
              Inherited \<Rightarrow> Inl TypeError
            | Undefined \<Rightarrow> join_accept st sid clk raw u (resolve_room roomId)
            | Own r \<Rightarrow>
                if map_of (users r) u \<noteq> None
                then Inr (st, [({sid}, Join_error ''Username already taken in this room.'')])
                else join_accept st sid clk raw u (resolve_room roomId)))"
proof -
  let ?u = "toLowerCase (trim raw)"
  have short: "length ?u < 5 \<Longrightarrow>
      validateUsername ?u = Some ''Username must be at least 5 characters long.''"
    by (simp add: validateUsername_cases)
  have digits: "5 \<le> length ?u \<Longrightarrow> length (filter is_digit ?u) < 2 \<Longrightarrow>
      validateUsername ?u = Some ''Username must contain at least 2 numbers.''"
    by (simp add: validateUsername_cases)
  have special: "5 \<le> length ?u \<Longrightarrow> 2 \<le> length (filter is_digit ?u) \<Longrightarrow>
      \<forall>c \<in> set ?u. \<not> is_special c \<Longrightarrow>
      validateUsername ?u =
        Some ''Username must contain at least 1 special character (e.g., !@#$%).''"
    by (simp add: validateUsername_cases)
  have ok: "5 \<le> length ?u \<Longrightarrow> 2 \<le> length (filter is_digit ?u) \<Longrightarrow>
      \<exists>c \<in> set ?u. is_special c \<Longrightarrow> validateUsername ?u = None"
    by (simp add: validateUsername_cases)
  show ?thesis
    unfolding Let_def
    by (intro conjI impI; (elim conjE)?)
       (simp_all add: join_room_invalid [OF short] join_room_invalid [OF digits]
          join_room_invalid [OF special] join_room_valid [OF ok] ok)
qed

text \<open>
  The four branches of C6 in the scenario, after \<open>alice12!\<close> has joined \<open>team\<close>: \<open>bo1\<close> is
  too short, \<open>alice1!\<close> has one digit, \<open>alice12\<close> has no special character, and \<open>alice12!\<close>
  passes the format and is then refused as taken. The last conjunct is the short name in
  the hand-written state where it is also a member.
\<close>

theorem join_room_checks_format_first_witness:
  "join_room st_team ''s2'' clk1 \<lparr>jp_username = Some ''bo1'', jp_roomId = Some ''team''\<rparr> =
     Inr (st_team, [({''s2''}, Join_error ''Username must be at least 5 characters long.'')]) \<and>
   join_room st_team ''s2'' clk1 \<lparr>jp_username = Some ''alice1!'', jp_roomId = Some ''team''\<rparr> =
     Inr (st_team, [({''s2''}, Join_error ''Username must contain at least 2 numbers.'')]) \<and>
   join_room st_team ''s2'' clk1 \<lparr>jp_username = Some ''alice12'', jp_roomId = Some ''team''\<rparr> =
     Inr (st_team, [({''s2''}, Join_error
        ''Username must contain at least 1 special character (e.g., !@#$%).'')]) \<and>
   join_room st_team ''s2'' clk1 \<lparr>jp_username = Some ''alice12!'', jp_roomId = Some ''team''\<rparr> =
     Inr (st_team, [({''s2''}, Join_error ''Username already taken in this room.'')]) \<and>
   members st_short_member ''team'' ''bo1'' = Some \<lparr>socketId = ''s1'', username = ''bo1''\<rparr> \<and>
   join_room st_short_member ''s2'' clk1 \<lparr>jp_username = Some ''bo1'', jp_roomId = Some ''team''\<rparr> =
     Inr (st_short_member,
          [({''s2''}, Join_error ''Username must be at least 5 characters long.'')])"
proof -
  have a: "join_room st_team ''s2'' clk1 \<lparr>jp_username = Some ''bo1'', jp_roomId = Some ''team''\<rparr> =
      Inr (st_team, [({''s2''}, Join_error ''Username must be at least 5 characters long.'')])"
    using join_room_checks_format_first
      [where raw = "''bo1''" and st = st_team and sid = "''s2''" and clk = clk1
         and roomId = "Some ''team''"]
    by (simp add: Let_def standardize_bo1)
  have b: "join_room st_team ''s2'' clk1
        \<lparr>jp_username = Some ''alice1!'', jp_roomId = Some ''team''\<rparr> =
      Inr (st_team, [({''s2''}, Join_error ''Username must contain at least 2 numbers.'')])"
    using join_room_checks_format_first
      [where raw = "''alice1!''" and st = st_team and sid = "''s2''" and clk = clk1
         and roomId = "Some ''team''"]
    by (simp add: Let_def standardize_alice1 is_digit_def)
  have c: "join_room st_team ''s2'' clk1
        \<lparr>jp_username = Some ''alice12'', jp_roomId = Some ''team''\<rparr> =
      Inr (st_team, [({''s2''}, Join_error
        ''Username must contain at least 1 special character (e.g., !@#$%).'')])"
    using join_room_checks_format_first
      [where raw = "''alice12''" and st = st_team and sid = "''s2''" and clk = clk1
         and roomId = "Some ''team''"]
    by (simp add: Let_def standardize_alice12 is_digit_def is_special_def special_chars_def)
  have d: "join_room st_team ''s2'' clk1
        \<lparr>jp_username = Some ''alice12!'', jp_roomId = Some ''team''\<rparr> =
      Inr (st_team, [({''s2''}, Join_error ''Username already taken in this room.'')])"
    using join_room_checks_format_first
      [where raw = "''alice12!''" and st = st_team and sid = "''s2''" and clk = clk1
         and roomId = "Some ''team''"]
    by (simp add: Let_def standardize_alice is_digit_def is_special_def special_chars_def
        lookup_defs st_team_def)
  have e: "members st_short_member ''team'' ''bo1'' =
      Some \<lparr>socketId = ''s1'', username = ''bo1''\<rparr>"
    by (simp add: members_def st_short_member_def)
  have f: "join_room st_short_member ''s2'' clk1
        \<lparr>jp_username = Some ''bo1'', jp_roomId = Some ''team''\<rparr> =
      Inr (st_short_member,
           [({''s2''}, Join_error ''Username must be at least 5 characters long.'')])"
    using join_room_checks_format_first
      [where raw = "''bo1''" and st = st_short_member and sid = "''s2''" and clk = clk1
         and roomId = "Some ''team''"]
    by (simp add: Let_def standardize_bo1)
  from a b c d e f show ?thesis by simp
qed

section \<open>Joining\<close>

lemma room_updated:
  "(r::room)\<lparr>users := us, messages := ms\<rparr> = \<lparr>users = us, messages = ms\<rparr>"
  by (cases r) simp

lemma room_updated':
  "(r::room)\<lparr>messages := ms, users := us\<rparr> = \<lparr>users = us, messages = ms\<rparr>"
  by (cases r) simp

lemma join_accept_eq:
  "join_accept st sid clk raw u room =
     Inr (\<lparr>rooms = (rooms st)(room \<mapsto>
              \<lparr>users = AList.update u \<lparr>socketId = sid, username = u\<rparr>
                         (case rooms st room of None \<Rightarrow> [] | Some r \<Rightarrow> users r),
               messages = history st room @
                 [System (raw @ '' joined the chat'') (toLocaleTimeString clk)
                    (''system-'' @ toString_nat (now clk) @ ''-'' @ sid)]\<rparr>),
           socketToUserMap = (socketToUserMap st)(sid \<mapsto> \<lparr>ui_username = u, ui_room = room\<rparr>),
           adapter = (adapter st)(room := insert sid (adapter st room))\<rparr>,
          [({sid}, Chat_history (history st room)),
           (insert sid (adapter st room),
            User_list (map snd (AList.update u \<lparr>socketId = sid, username = u\<rparr>
                         (case rooms st room of None \<Rightarrow> [] | Some r \<Rightarrow> users r)))),
           (insert sid (adapter st room),
            System_message (System (raw @ '' joined the chat'') (toLocaleTimeString clk)
                    (''system-'' @ toString_nat (now clk) @ ''-'' @ sid))),
           ({sid}, Join_success)])"
  by (simp add: join_accept_def Let_def emit_defs history_def room_updated split: option.splits)

lemma join_room_free:
  assumes "validateUsername (toLowerCase (trim raw)) = None"
    and "rooms_get (rooms st) (resolve_room roomId) \<noteq> Inherited"
    and "members st (resolve_room roomId) (toLowerCase (trim raw)) = None"
  shows "join_room st sid clk \<lparr>jp_username = Some raw, jp_roomId = roomId\<rparr> =
     join_accept st sid clk raw (toLowerCase (trim raw)) (resolve_room roomId)"
  using assms
  by (simp add: join_room_valid members_def rooms_get_def split: option.splits if_splits)

lemma join_room_taken:
  assumes "validateUsername (toLowerCase (trim raw)) = None"
    and "members st (resolve_room roomId) (toLowerCase (trim raw)) = Some m"
  shows "join_room st sid clk \<lparr>jp_username = Some raw, jp_roomId = roomId\<rparr> =
     Inr (st, [({sid}, Join_error ''Username already taken in this room.'')])"
  using assms
  by (simp add: join_room_valid members_def rooms_get_def split: option.splits if_splits)

lemma join_room_successD:
  assumes "join_room st sid clk p = Inr (st', out)"
    and "({sid}, Join_success) \<in> set out"
  shows "\<exists>raw. jp_username p = Some raw \<and>
           validateUsername (toLowerCase (trim raw)) = None \<and>
           join_accept st sid clk raw (toLowerCase (trim raw)) (resolve_room (jp_roomId p)) =
             Inr (st', out)"
  using assms
  by (auto simp: join_room_def Let_def socket_emit_def
      split: option.splits lookup.splits if_splits)

lemma join_accept_session:
  assumes "join_accept st sid clk raw u room = Inr (st1, out)"
  shows "\<exists>r1. rooms st1 room = Some r1 \<and>
           map_of (users r1) u = Some \<lparr>socketId = sid, username = u\<rparr> \<and>
           (\<forall>k. k \<noteq> u \<longrightarrow> map_of (users r1) k = members st room k)"
    and "socketToUserMap st1 sid = Some \<lparr>ui_username = u, ui_room = room\<rparr>"
    and "(adapter st1 room,
          System_message (System (raw @ '' joined the chat'') (toLocaleTimeString clk)
            (''system-'' @ toString_nat (now clk) @ ''-'' @ sid))) \<in> set out"
  using assms
  by (auto simp: join_accept_eq members_def AList.update_conv' split: option.splits)

text \<open>
  C7. Uniqueness of a username is per room. When the standardized username is a member of
  the resolved room, \<open>join_room\<close> answers \<open>Username already taken in this room.\<close> to the
  requesting socket only and returns the state as it was: \<open>rooms\<close>, \<open>socketToUserMap\<close> and
  the sockets of every room are unchanged. A join under the same username into another
  room where it is free succeeds, and afterwards the name is a member of both rooms, held
  by the two sockets, each with its own entry in \<open>socketToUserMap\<close>.
\<close>

theorem username_unique_per_room:
  assumes "validateUsername (toLowerCase (trim raw)) = None"
    and "members st (resolve_room roomId) (toLowerCase (trim raw)) = Some m"
  shows "join_room st sid clk \<lparr>jp_username = Some raw, jp_roomId = roomId\<rparr> =
       Inr (st, [({sid}, Join_error ''Username already taken in this room.'')]) \<and>
     (\<forall>roomId' sid' clk'.
        resolve_room roomId' \<noteq> resolve_room roomId \<and>
        rooms_get (rooms st) (resolve_room roomId') \<noteq> Inherited \<and>
        members st (resolve_room roomId') (toLowerCase (trim raw)) = None \<longrightarrow>
        (\<exists>st' out.
           join_room st sid' clk' \<lparr>jp_username = Some raw, jp_roomId = roomId'\<rparr> =
             Inr (st', out) \<and>
           ({sid'}, Join_success) \<in> set out \<and>
           members st' (resolve_room roomId) (toLowerCase (trim raw)) = Some m \<and>
           members st' (resolve_room roomId') (toLowerCase (trim raw)) =
             Some \<lparr>socketId = sid', username = toLowerCase (trim raw)\<rparr> \<and>
           socketToUserMap st' sid' =
             Some \<lparr>ui_username = toLowerCase (trim raw), ui_room = resolve_room roomId'\<rparr> \<and>
           (\<forall>s. s \<noteq> sid' \<longrightarrow> socketToUserMap st' s = socketToUserMap st s)))"
proof (intro conjI allI impI)
  show "join_room st sid clk \<lparr>jp_username = Some raw, jp_roomId = roomId\<rparr> =
       Inr (st, [({sid}, Join_error ''Username already taken in this room.'')])"
    by (rule join_room_taken [OF assms])
next
  fix roomId' sid' clk'
  assume h: "resolve_room roomId' \<noteq> resolve_room roomId \<and>
        rooms_get (rooms st) (resolve_room roomId') \<noteq> Inherited \<and>
        members st (resolve_room roomId') (toLowerCase (trim raw)) = None"
  then have "join_room st sid' clk' \<lparr>jp_username = Some raw, jp_roomId = roomId'\<rparr> =
     join_accept st sid' clk' raw (toLowerCase (trim raw)) (resolve_room roomId')"
    using join_room_free [OF assms(1)] by blast
  then show "\<exists>st' out.
           join_room st sid' clk' \<lparr>jp_username = Some raw, jp_roomId = roomId'\<rparr> =
             Inr (st', out) \<and>
           ({sid'}, Join_success) \<in> set out \<and>
           members st' (resolve_room roomId) (toLowerCase (trim raw)) = Some m \<and>
           members st' (resolve_room roomId') (toLowerCase (trim raw)) =
             Some \<lparr>socketId = sid', username = toLowerCase (trim raw)\<rparr> \<and>
           socketToUserMap st' sid' =
             Some \<lparr>ui_username = toLowerCase (trim raw), ui_room = resolve_room roomId'\<rparr> \<and>
           (\<forall>s. s \<noteq> sid' \<longrightarrow> socketToUserMap st' s = socketToUserMap st s)"
    using h assms(2)
    by (auto simp: join_accept_eq members_def AList.update_conv')
qed

text \<open>
  C7 in the scenario: \<open>alice12!\<close> is in \<open>team\<close> on \<open>s1\<close>; \<open>s3\<close> is refused in \<open>team\<close>, and \<open>s2\<close>
  joins \<open>dev\<close> under the same name.
\<close>

theorem username_unique_per_room_witness:
  "validateUsername (toLowerCase (trim ''alice12!'')) = None \<and>
   members st_team (resolve_room (Some ''team'')) (toLowerCase (trim ''alice12!'')) =
     Some (alice_member ''s1'') \<and>
   join_room st_team ''s3'' clk2 \<lparr>jp_username = Some ''alice12!'', jp_roomId = Some ''team''\<rparr> =
     Inr (st_team, [({''s3''}, Join_error ''Username already taken in this room.'')]) \<and>
   (\<exists>st' out.
      join_room st_team ''s2'' clk1 \<lparr>jp_username = Some ''alice12!'', jp_roomId = Some ''dev''\<rparr> =
        Inr (st', out) \<and>
      ({''s2''}, Join_success) \<in> set out \<and>
      members st' ''team'' ''alice12!'' = Some (alice_member ''s1'') \<and>
      members st' ''dev'' ''alice12!'' = Some (alice_member ''s2'') \<and>
      socketToUserMap st' ''s2'' = Some \<lparr>ui_username = ''alice12!'', ui_room = ''dev''\<rparr> \<and>
      socketToUserMap st' ''s1'' = Some \<lparr>ui_username = ''alice12!'', ui_room = ''team''\<rparr>)"
proof -
  have v: "validateUsername (toLowerCase (trim ''alice12!'')) = None"
    by (simp add: standardize_alice validate_alice)
  have m: "members st_team (resolve_room (Some ''team'')) (toLowerCase (trim ''alice12!'')) =
      Some (alice_member ''s1'')"
    by (simp add: members_def st_team_def resolve_room_def standardize_alice)
  have free: "resolve_room (Some ''dev'') \<noteq> resolve_room (Some ''team'') \<and>
      rooms_get (rooms st_team) (resolve_room (Some ''dev'')) \<noteq> Inherited \<and>
      members st_team (resolve_room (Some ''dev'')) (toLowerCase (trim ''alice12!'')) = None"
    by (simp add: members_def st_team_def lookup_defs dev_not_inherited)
  have s1: "socketToUserMap st_team ''s1'' = Some \<lparr>ui_username = ''alice12!'', ui_room = ''team''\<rparr>"
    by (simp add: st_team_def)
  note t = username_unique_per_room [OF v m]
  from t [of "''s3''" clk2] have taken:
    "join_room st_team ''s3'' clk2 \<lparr>jp_username = Some ''alice12!'', jp_roomId = Some ''team''\<rparr> =
     Inr (st_team, [({''s3''}, Join_error ''Username already taken in this room.'')])"
    by blast
  from t [of "''s3''" clk2] free obtain st' out where
    "join_room st_team ''s2'' clk1 \<lparr>jp_username = Some ''alice12!'', jp_roomId = Some ''dev''\<rparr> =
        Inr (st', out)"
    "({''s2''}, Join_success) \<in> set out"
    "members st' (resolve_room (Some ''team'')) (toLowerCase (trim ''alice12!'')) =
       Some (alice_member ''s1'')"
    "members st' (resolve_room (Some ''dev'')) (toLowerCase (trim ''alice12!'')) =
       Some \<lparr>socketId = ''s2'', username = toLowerCase (trim ''alice12!'')\<rparr>"
    "socketToUserMap st' ''s2'' =
       Some \<lparr>ui_username = toLowerCase (trim ''alice12!''), ui_room = resolve_room (Some ''dev'')\<rparr>"
    "\<forall>s. s \<noteq> ''s2'' \<longrightarrow> socketToUserMap st' s = socketToUserMap st_team s"
    by blast
  then have "join_room st_team ''s2'' clk1
        \<lparr>jp_username = Some ''alice12!'', jp_roomId = Some ''dev''\<rparr> = Inr (st', out) \<and>
      ({''s2''}, Join_success) \<in> set out \<and>
      members st' ''team'' ''alice12!'' = Some (alice_member ''s1'') \<and>
      members st' ''dev'' ''alice12!'' = Some (alice_member ''s2'') \<and>
      socketToUserMap st' ''s2'' = Some \<lparr>ui_username = ''alice12!'', ui_room = ''dev''\<rparr> \<and>
      socketToUserMap st' ''s1'' = Some \<lparr>ui_username = ''alice12!'', ui_room = ''team''\<rparr>"
    using s1 by (simp add: resolve_room_def standardize_alice alice_member_def)
  then show ?thesis using v m taken by blast
qed

text \<open>
  C3 as stated fails in one point: the joiner's own join record can be inside the history
  it is sent. \<open>s1\<close> joins \<open>public\<close> as \<open>alice12!\<close>, leaves and joins again, all within one
  reading of the clock. The record of the first join stays in the history of \<open>public\<close>, and
  the record of the second join is equal to it in text, time and id, so the history sent
  at the second join holds the record that this join then stores and broadcasts.
\<close>

theorem delivered_history_holds_join_record:
  "join_room init ''s1'' clk0 alice_join_public =
     Inr (st_public1,
          [({''s1''}, Chat_history []),
           ({''s1''}, User_list [alice_member ''s1'']),
           ({''s1''}, System_message alice_joined),
           ({''s1''}, Join_success)]) \<and>
   leave_room st_public1 ''s1'' clk0 None =
     Inr (st_public2,
          [({''s1''}, System_message alice_left),
           ({}, User_list [])]) \<and>
   join_room st_public2 ''s1'' clk0 alice_join_public =
     Inr (st_public3,
          [({''s1''}, Chat_history [alice_joined, alice_left]),
           ({''s1''}, User_list [alice_member ''s1'']),
           ({''s1''}, System_message alice_joined),
           ({''s1''}, Join_success)]) \<and>
   alice_joined \<in> set [alice_joined, alice_left]"
  using join_public_alice leave_public_alice join_public_alice_again by simp

text \<open>
  C3 as amended. A socket that joins a room successfully is sent, in a \<open>chat_history\<close>
  event to it alone, exactly the records the room's history held before the join, in
  their order. Its own join record \<open>j\<close> is stored after them: the stored history after the
  join is the delivered records followed by \<open>j\<close>, so \<open>j\<close> stands at the position after the
  last delivered record. It reaches the joiner with the \<open>system_message\<close> broadcast to the
  room, which is emitted after the history and whose recipients include the joiner.
\<close>

theorem join_delivers_prior_history:
  assumes "validateUsername (toLowerCase (trim raw)) = None"
    and "rooms_get (rooms st) (resolve_room roomId) \<noteq> Inherited"
    and "members st (resolve_room roomId) (toLowerCase (trim raw)) = None"
  shows "\<exists>st' ul j.
     join_room st sid clk \<lparr>jp_username = Some raw, jp_roomId = roomId\<rparr> =
       Inr (st', [({sid}, Chat_history (history st (resolve_room roomId))),
                  (adapter st' (resolve_room roomId), User_list ul),
                  (adapter st' (resolve_room roomId), System_message j),
                  ({sid}, Join_success)]) \<and>
     sid \<in> adapter st' (resolve_room roomId) \<and>
     j = System (raw @ '' joined the chat'') (toLocaleTimeString clk)
           (''system-'' @ toString_nat (now clk) @ ''-'' @ sid) \<and>
     history st' (resolve_room roomId) = history st (resolve_room roomId) @ [j] \<and>
     length (history st' (resolve_room roomId)) = Suc (length (history st (resolve_room roomId))) \<and>
     take (length (history st (resolve_room roomId))) (history st' (resolve_room roomId)) =
       history st (resolve_room roomId) \<and>
     history st' (resolve_room roomId) ! length (history st (resolve_room roomId)) = j"
  unfolding join_room_free [OF assms] join_accept_eq
  by (auto simp: history_def)

text \<open>
  C3 as amended, in two joins. \<open>team\<close> holds the join record of \<open>alice12!\<close>; \<open>s2\<close> joins as
  \<open>bobby34!\<close>, is sent that one record, and its own join record follows in the stored
  history and in the broadcast. And in the second join of \<open>s1\<close> to \<open>public\<close> above, the two
  records stored before are sent and the join record is stored as the third.
\<close>

theorem join_delivers_prior_history_witness:
  "validateUsername (toLowerCase (trim ''bobby34!'')) = None \<and>
   rooms_get (rooms st_team) (resolve_room (Some ''team'')) \<noteq> Inherited \<and>
   members st_team (resolve_room (Some ''team'')) (toLowerCase (trim ''bobby34!'')) = None \<and>
   history st_team ''team'' = [alice_joined] \<and>
   (\<exists>st' ul.
      join_room st_team ''s2'' clk1 \<lparr>jp_username = Some ''bobby34!'', jp_roomId = Some ''team''\<rparr> =
        Inr (st', [({''s2''}, Chat_history [alice_joined]),
                   (adapter st' ''team'', User_list ul),
                   (adapter st' ''team'', System_message bobby_joined),
                   ({''s2''}, Join_success)]) \<and>
      ''s2'' \<in> adapter st' ''team'' \<and>
      history st' ''team'' = [alice_joined, bobby_joined] \<and>
      history st' ''team'' ! 1 = bobby_joined) \<and>
   validateUsername (toLowerCase (trim ''alice12!'')) = None \<and>
   rooms_get (rooms st_public2) (resolve_room None) \<noteq> Inherited \<and>
   members st_public2 (resolve_room None) (toLowerCase (trim ''alice12!'')) = None \<and>
   history st_public2 ''public'' = [alice_joined, alice_left] \<and>
   (\<exists>st' ul.
      join_room st_public2 ''s1'' clk0 \<lparr>jp_username = Some ''alice12!'', jp_roomId = None\<rparr> =
        Inr (st', [({''s1''}, Chat_history [alice_joined, alice_left]),
                   (adapter st' ''public'', User_list ul),
                   (adapter st' ''public'', System_message alice_joined),
                   ({''s1''}, Join_success)]) \<and>
      ''s1'' \<in> adapter st' ''public'' \<and>
      history st' ''public'' = [alice_joined, alice_left, alice_joined] \<and>
      history st' ''public'' ! 2 = alice_joined)"
proof -
  have t: "resolve_room (Some ''team'') = ''team''" by (simp add: resolve_room_def)
  have v: "validateUsername (toLowerCase (trim ''bobby34!'')) = None"
    by (simp add: standardize_bobby validate_bobby)
  have own: "rooms_get (rooms st_team) (resolve_room (Some ''team'')) \<noteq> Inherited"
    by (simp add: t rooms_get_def st_team_def)
  have free: "members st_team (resolve_room (Some ''team'')) (toLowerCase (trim ''bobby34!'')) = None"
    by (simp add: t members_def st_team_def standardize_bobby)
  have hist: "history st_team ''team'' = [alice_joined]"
    by (simp add: history_def st_team_def)
  have j: "System (''bobby34!'' @ '' joined the chat'') (toLocaleTimeString clk1)
           (''system-'' @ toString_nat (now clk1) @ ''-'' @ ''s2'') = bobby_joined"
    by (simp add: bobby_joined_def clk1_def toString_nat_clk1)
  from join_delivers_prior_history [OF v own free, of "''s2''" clk1]
  have first: "\<exists>st' ul.
      join_room st_team ''s2'' clk1 \<lparr>jp_username = Some ''bobby34!'', jp_roomId = Some ''team''\<rparr> =
        Inr (st', [({''s2''}, Chat_history [alice_joined]),
                   (adapter st' ''team'', User_list ul),
                   (adapter st' ''team'', System_message bobby_joined),
                   ({''s2''}, Join_success)]) \<and>
      ''s2'' \<in> adapter st' ''team'' \<and>
      history st' ''team'' = [alice_joined, bobby_joined] \<and>
      history st' ''team'' ! 1 = bobby_joined"
    unfolding t hist j by auto
  have p: "resolve_room None = ''public''" by (simp add: resolve_room_def)
  have v2: "validateUsername (toLowerCase (trim ''alice12!'')) = None"
    by (simp add: standardize_alice validate_alice)
  have own2: "rooms_get (rooms st_public2) (resolve_room None) \<noteq> Inherited"
    by (simp add: p rooms_get_def st_public2_def)
  have free2: "members st_public2 (resolve_room None) (toLowerCase (trim ''alice12!'')) = None"
    by (simp add: p members_def st_public2_def standardize_alice)
  have hist2: "history st_public2 ''public'' = [alice_joined, alice_left]"
    by (simp add: history_def st_public2_def)
  have j2: "System (''alice12!'' @ '' joined the chat'') (toLocaleTimeString clk0)
           (''system-'' @ toString_nat (now clk0) @ ''-'' @ ''s1'') = alice_joined"
    by (simp add: alice_joined_def clk0_def toString_nat_clk0)
  from join_delivers_prior_history [OF v2 own2 free2, of "''s1''" clk0]
  have second: "\<exists>st' ul.
      join_room st_public2 ''s1'' clk0 \<lparr>jp_username = Some ''alice12!'', jp_roomId = None\<rparr> =
        Inr (st', [({''s1''}, Chat_history [alice_joined, alice_left]),
                   (adapter st' ''public'', User_list ul),
                   (adapter st' ''public'', System_message alice_joined),
                   ({''s1''}, Join_success)]) \<and>
      ''s1'' \<in> adapter st' ''public'' \<and>
      history st' ''public'' = [alice_joined, alice_left, alice_joined] \<and>
      history st' ''public'' ! 2 = alice_joined"
    unfolding p hist2 j2 by auto
  from v own free hist first v2 own2 free2 hist2 second show ?thesis by blast
qed

text \<open>
  C4 as stated fails: the history sent to the joiner does not contain its own join record.
  When \<open>s2\<close> joins \<open>team\<close> as \<open>bobby34!\<close>, the \<open>chat_history\<close> event carries the one record
  stored before, and the join record of \<open>bobby34!\<close> is not in it.
\<close>

theorem delivered_history_lacks_join_record:
  "join_room st_team ''s2'' clk1 \<lparr>jp_username = Some ''bobby34!'', jp_roomId = Some ''team''\<rparr> =
     Inr (st_team2,
          [({''s2''}, Chat_history [alice_joined]),
           ({''s2'', ''s1''}, User_list [alice_member ''s1'', bobby_member ''s2'']),
           ({''s2'', ''s1''}, System_message bobby_joined),
           ({''s2''}, Join_success)]) \<and>
   bobby_joined \<notin> set [alice_joined]"
  using join_team_bobby by (simp add: bobby_joined_def alice_joined_def)

text \<open>
  C4 as amended. In every successful join, the room's history as stored before the join is
  delivered to the joining socket first, and the record \<open>{rawUsername} joined the chat\<close> is
  appended to the room's history afterwards: the stored history after the join is the
  delivered one followed by the join record.
\<close>

theorem join_appends_after_delivery:
  assumes "join_room st sid clk p = Inr (st', out)"
    and "({sid}, Join_success) \<in> set out"
  shows "\<exists>raw rest.
     jp_username p = Some raw \<and>
     out = ({sid}, Chat_history (history st (resolve_room (jp_roomId p)))) # rest \<and>
     history st' (resolve_room (jp_roomId p)) =
       history st (resolve_room (jp_roomId p)) @
         [System (raw @ '' joined the chat'') (toLocaleTimeString clk)
            (''system-'' @ toString_nat (now clk) @ ''-'' @ sid)]"
  using assms
  by (auto simp: join_room_def Let_def socket_emit_def join_accept_eq history_def
      split: option.splits lookup.splits if_splits)

text \<open>C4 as amended, in the join of \<open>bobby34!\<close> above.\<close>

theorem join_appends_after_delivery_witness:
  "join_room st_team ''s2'' clk1 \<lparr>jp_username = Some ''bobby34!'', jp_roomId = Some ''team''\<rparr> =
     Inr (st_team2,
          [({''s2''}, Chat_history [alice_joined]),
           ({''s2'', ''s1''}, User_list [alice_member ''s1'', bobby_member ''s2'']),
           ({''s2'', ''s1''}, System_message bobby_joined),
           ({''s2''}, Join_success)]) \<and>
   history st_team ''team'' = [alice_joined] \<and>
   history st_team2 ''team'' = history st_team ''team'' @ [bobby_joined]"
proof -
  have s: "({''s2''}, Join_success) \<in> set
          [({''s2''}, Chat_history [alice_joined]),
           ({''s2'', ''s1''}, User_list [alice_member ''s1'', bobby_member ''s2'']),
           ({''s2'', ''s1''}, System_message bobby_joined),
           ({''s2''}, Join_success)]"
    by simp
  have hist: "history st_team ''team'' = [alice_joined]"
    by (simp add: history_def st_team_def)
  from join_appends_after_delivery [OF join_team_bobby s]
  have "history st_team2 ''team'' = history st_team ''team'' @ [bobby_joined]"
    by (auto simp: resolve_room_def bobby_joined_def clk1_def toString_nat_clk1)
  with join_team_bobby hist show ?thesis by blast
qed

section \<open>Leaving\<close>

lemma remove_user_eq:
  "remove_user st sid clk room r name to_all ad1 ad2 =
     (\<lparr>rooms =
         (if room \<noteq> ''public'' \<and> AList.delete name (users r) = []
          then (rooms st)(room := None)
          else (rooms st)(room \<mapsto>
                 \<lparr>users = AList.delete name (users r),
                  messages = messages r @
                    [System (name @ '' left the chat'') (toLocaleTimeString clk)
                       (''system-'' @ toString_nat (now clk) @ ''-'' @ sid)]\<rparr>)),
       socketToUserMap = (socketToUserMap st)(sid := None),
       adapter = ad2\<rparr>,
      [(if to_all then ad1 room else ad1 room - {sid},
        System_message (System (name @ '' left the chat'') (toLocaleTimeString clk)
                       (''system-'' @ toString_nat (now clk) @ ''-'' @ sid))),
       (ad2 room, User_list (map snd (AList.delete name (users r))))])"
  by (simp add: remove_user_def Let_def emit_defs room_updated')

lemma leave_room_member:
  assumes "socketToUserMap st sid = Some ui"
    and "rooms st (resolve_room roomId) = Some r"
    and "map_of (users r) (ui_username ui) \<noteq> None"
  shows "leave_room st sid clk roomId =
     Inr (remove_user st sid clk (resolve_room roomId) r (ui_username ui) True (adapter st)
            ((adapter st)(resolve_room roomId := adapter st (resolve_room roomId) - {sid})))"
  using assms by (simp add: leave_room_def Let_def rooms_get_def users_has_def)

lemma disconnect_member:
  assumes "socketToUserMap st sid = Some ui"
    and "rooms st (ui_room ui) = Some r"
    and "map_of (users r) (ui_username ui) \<noteq> None"
  shows "disconnect st sid clk =
     Inr (remove_user st sid clk (ui_room ui) r (ui_username ui) False
            (\<lambda>room. adapter st room - {sid}) (\<lambda>room. adapter st room - {sid}))"
  using assms by (simp add: disconnect_def Let_def rooms_get_def users_has_def)

text \<open>
  C10. \<open>leave_room\<close> takes the room from the payload, not from the sender's entry in
  \<open>socketToUserMap\<close>. When socket \<open>c\<close> has the session \<open>(u, A)\<close> and names another room \<open>B\<close>
  in which \<open>u\<close> is a member held by another socket \<open>d\<close>, the handler appends the record
  \<open>{u} left the chat\<close> to \<open>B\<close> and broadcasts it to \<open>B\<close>, removes \<open>u\<close> from the members of \<open>B\<close>
  (the room \<open>B\<close> is deleted when that leaves it empty and it is not \<open>public\<close>), and deletes
  the entry of \<open>c\<close> in \<open>socketToUserMap\<close>; the entry of \<open>d\<close> in \<open>socketToUserMap\<close> and the
  member entry of \<open>c\<close> in room \<open>A\<close> stay.
\<close>

theorem leave_room_uses_payload_room:
  assumes "socketToUserMap st c = Some \<lparr>ui_username = u, ui_room = A\<rparr>"
    and "members st A u = Some \<lparr>socketId = c, username = u\<rparr>"
    and "resolve_room roomId = B"
    and "B \<noteq> A"
    and "rooms st B = Some rb"
    and "map_of (users rb) u = Some \<lparr>socketId = d, username = u\<rparr>"
    and "d \<noteq> c"
  shows "\<exists>st' j.
     leave_room st c clk roomId =
       Inr (st', [(adapter st B, System_message j),
                  (adapter st B - {c}, User_list (map snd (AList.delete u (users rb))))]) \<and>
     j = System (u @ '' left the chat'') (toLocaleTimeString clk)
           (''system-'' @ toString_nat (now clk) @ ''-'' @ c) \<and>
     rooms st' B =
       (if B \<noteq> ''public'' \<and> AList.delete u (users rb) = [] then None
        else Some \<lparr>users = AList.delete u (users rb), messages = messages rb @ [j]\<rparr>) \<and>
     members st' B u = None \<and>
     socketToUserMap st' c = None \<and>
     socketToUserMap st' d = socketToUserMap st d \<and>
     rooms st' A = rooms st A \<and>
     members st' A u = Some \<lparr>socketId = c, username = u\<rparr>"
proof -
  have "leave_room st c clk roomId =
     Inr (remove_user st c clk B rb u True (adapter st)
            ((adapter st)(B := adapter st B - {c})))"
    using leave_room_member [of st c "\<lparr>ui_username = u, ui_room = A\<rparr>" roomId rb clk] assms
    by simp
  then show ?thesis
    using assms
    by (auto simp: remove_user_eq members_def AList.delete_conv')
qed

text \<open>
  C10 in the scenario: \<open>alice12!\<close> is in \<open>team\<close> on \<open>s1\<close> and in \<open>dev\<close> on \<open>s2\<close>; \<open>s1\<close> sends
  \<open>leave_room\<close> for \<open>dev\<close>.
\<close>

theorem leave_room_uses_payload_room_witness:
  "socketToUserMap st_two ''s1'' = Some \<lparr>ui_username = ''alice12!'', ui_room = ''team''\<rparr> \<and>
   members st_two ''team'' ''alice12!'' = Some \<lparr>socketId = ''s1'', username = ''alice12!''\<rparr> \<and>
   members st_two ''dev'' ''alice12!'' = Some \<lparr>socketId = ''s2'', username = ''alice12!''\<rparr> \<and>
   (\<exists>st'.
      leave_room st_two ''s1'' clk2 (Some ''dev'') =
        Inr (st', [({''s2''}, System_message
                      (System ''alice12! left the chat'' ''10:00:02 AM''
                         ''system-1700000001000-s1'')),
                   ({''s2''}, User_list [])]) \<and>
      rooms st' ''dev'' = None \<and>
      members st' ''dev'' ''alice12!'' = None \<and>
      socketToUserMap st' ''s1'' = None \<and>
      socketToUserMap st' ''s2'' = Some \<lparr>ui_username = ''alice12!'', ui_room = ''dev''\<rparr> \<and>
      members st' ''team'' ''alice12!'' = Some \<lparr>socketId = ''s1'', username = ''alice12!''\<rparr>)"
proof -
  have c: "socketToUserMap st_two ''s1'' = Some \<lparr>ui_username = ''alice12!'', ui_room = ''team''\<rparr>"
    by (simp add: st_two_def)
  have a: "members st_two ''team'' ''alice12!'' = Some \<lparr>socketId = ''s1'', username = ''alice12!''\<rparr>"
    by (simp add: members_def st_two_def alice_member_def)
  have b: "members st_two ''dev'' ''alice12!'' = Some \<lparr>socketId = ''s2'', username = ''alice12!''\<rparr>"
    by (simp add: members_def st_two_def alice_member_def)
  have r: "resolve_room (Some ''dev'') = ''dev''" by (simp add: resolve_room_def)
  have ne: "''dev'' \<noteq> ''team''" by simp
  have rb: "rooms st_two ''dev'' =
      Some \<lparr>users = [(''alice12!'', alice_member ''s2'')],
            messages = [System ''alice12! joined the chat'' ''10:00:01 AM''
                          ''system-1700000000500-s2'']\<rparr>"
    by (simp add: st_two_def)
  have d: "map_of (users \<lparr>users = [(''alice12!'', alice_member ''s2'')],
            messages = [System ''alice12! joined the chat'' ''10:00:01 AM''
                          ''system-1700000000500-s2'']\<rparr>) ''alice12!'' =
      Some \<lparr>socketId = ''s2'', username = ''alice12!''\<rparr>"
    by (simp add: alice_member_def)
  have sd: "''s2'' \<noteq> ''s1''" by simp
  have s2: "socketToUserMap st_two ''s2'' = Some \<lparr>ui_username = ''alice12!'', ui_room = ''dev''\<rparr>"
    and ad: "adapter st_two ''dev'' = {''s2''}"
    by (simp_all add: st_two_def)
  from leave_room_uses_payload_room [OF c a r ne rb d sd, of clk2]
  have "\<exists>st'.
      leave_room st_two ''s1'' clk2 (Some ''dev'') =
        Inr (st', [({''s2''}, System_message
                      (System ''alice12! left the chat'' ''10:00:02 AM''
                         ''system-1700000001000-s1'')),
                   ({''s2''}, User_list [])]) \<and>
      rooms st' ''dev'' = None \<and>
      members st' ''dev'' ''alice12!'' = None \<and>
      socketToUserMap st' ''s1'' = None \<and>
      socketToUserMap st' ''s2'' = Some \<lparr>ui_username = ''alice12!'', ui_room = ''dev''\<rparr> \<and>
      members st' ''team'' ''alice12!'' = Some \<lparr>socketId = ''s1'', username = ''alice12!''\<rparr>"
    by (auto simp: s2 ad clk2_def toString_nat_clk2 AList.delete_eq)
  with c a b show ?thesis by blast
qed

text \<open>
  C9 as stated fails for the leave message. \<open>s1\<close> joins \<open>team\<close> as \<open>\<^verbatim>\<open> Alice12! \<close>\<close>; the join
  message shows the raw name, the leave message shows \<open>alice12!\<close>.
\<close>

theorem leave_message_shows_standardized_name:
  "join_room init ''s1'' clk0 \<lparr>jp_username = Some '' Alice12! '', jp_roomId = Some ''team''\<rparr> =
     Inr (st_team_raw,
          [({''s1''}, Chat_history []),
           ({''s1''}, User_list [alice_member ''s1'']),
           ({''s1''}, System_message
              (System '' Alice12!  joined the chat'' ''10:00:00 AM'' ''system-1700000000000-s1'')),
           ({''s1''}, Join_success)]) \<and>
   leave_room st_team_raw ''s1'' clk1 (Some ''team'') =
     Inr (st_left,
          [({''s1''}, System_message
              (System ''alice12! left the chat'' ''10:00:01 AM'' ''system-1700000000500-s1'')),
           ({}, User_list [])]) \<and>
   ''alice12! left the chat'' \<noteq> '' Alice12! '' @ '' left the chat''"
  using join_team_raw leave_team_raw by simp

text \<open>
  C9 as amended. For every session created by a successful join from the raw username
  \<open>raw\<close>: the join system message is \<open>{raw} joined the chat\<close> with \<open>raw\<close> as it was sent;
  the member key and the username of the entry in \<open>socketToUserMap\<close> are the standardized
  form (trimmed, lower-cased), and no other member key of the room changes; and the system
  message of \<open>leave_room\<close> and of \<open>disconnect\<close> for that session is \<open>{u} left the chat\<close>
  with \<open>u\<close> the standardized form, since that is the only form the session keeps.
\<close>

theorem system_messages_show_names:
  assumes "join_room st sid clk p = Inr (st1, out1)"
    and "({sid}, Join_success) \<in> set out1"
  shows "\<exists>raw.
     jp_username p = Some raw \<and>
     (adapter st1 (resolve_room (jp_roomId p)),
      System_message (System (raw @ '' joined the chat'') (toLocaleTimeString clk)
        (''system-'' @ toString_nat (now clk) @ ''-'' @ sid))) \<in> set out1 \<and>
     members st1 (resolve_room (jp_roomId p)) (toLowerCase (trim raw)) =
       Some \<lparr>socketId = sid, username = toLowerCase (trim raw)\<rparr> \<and>
     (\<forall>k. k \<noteq> toLowerCase (trim raw) \<longrightarrow>
        members st1 (resolve_room (jp_roomId p)) k = members st (resolve_room (jp_roomId p)) k) \<and>
     socketToUserMap st1 sid =
       Some \<lparr>ui_username = toLowerCase (trim raw), ui_room = resolve_room (jp_roomId p)\<rparr> \<and>
     (\<forall>clk'. \<exists>st2 e.
        leave_room st1 sid clk' (jp_roomId p) =
          Inr (st2, [(adapter st1 (resolve_room (jp_roomId p)),
                      System_message
                        (System (toLowerCase (trim raw) @ '' left the chat'')
                           (toLocaleTimeString clk')
                           (''system-'' @ toString_nat (now clk') @ ''-'' @ sid))), e])) \<and>
     (\<forall>clk'. \<exists>st2 e.
        disconnect st1 sid clk' =
          Inr (st2, [(adapter st1 (resolve_room (jp_roomId p)) - {sid},
                      System_message
                        (System (toLowerCase (trim raw) @ '' left the chat'')
                           (toLocaleTimeString clk')
                           (''system-'' @ toString_nat (now clk') @ ''-'' @ sid))), e]))"
proof -
  let ?room = "resolve_room (jp_roomId p)"
  from join_room_successD [OF assms] obtain raw where
    raw: "jp_username p = Some raw"
    and acc: "join_accept st sid clk raw (toLowerCase (trim raw)) ?room = Inr (st1, out1)"
    by blast
  let ?u = "toLowerCase (trim raw)"
  from join_accept_session [OF acc] obtain r1 where
    r1: "rooms st1 ?room = Some r1"
    and mem: "map_of (users r1) ?u = Some \<lparr>socketId = sid, username = ?u\<rparr>"
    and others: "\<forall>k. k \<noteq> ?u \<longrightarrow> map_of (users r1) k = members st ?room k"
    and ui: "socketToUserMap st1 sid = Some \<lparr>ui_username = ?u, ui_room = ?room\<rparr>"
    and sys: "(adapter st1 ?room,
          System_message (System (raw @ '' joined the chat'') (toLocaleTimeString clk)
            (''system-'' @ toString_nat (now clk) @ ''-'' @ sid))) \<in> set out1"
    by blast
  have m1: "members st1 ?room ?u = Some \<lparr>socketId = sid, username = ?u\<rparr>"
    using r1 mem by (simp add: members_def)
  have m2: "\<forall>k. k \<noteq> ?u \<longrightarrow> members st1 ?room k = members st ?room k"
    using r1 others by (simp add: members_def)
  have leave: "\<exists>st2 e.
        leave_room st1 sid clk' (jp_roomId p) =
          Inr (st2, [(adapter st1 ?room,
                      System_message
                        (System (?u @ '' left the chat'') (toLocaleTimeString clk')
                           (''system-'' @ toString_nat (now clk') @ ''-'' @ sid))), e])" for clk'
    using leave_room_member [of st1 sid "\<lparr>ui_username = ?u, ui_room = ?room\<rparr>" "jp_roomId p" r1 clk']
      ui r1 mem
    by (simp add: remove_user_eq)
  have disc: "\<exists>st2 e.
        disconnect st1 sid clk' =
          Inr (st2, [(adapter st1 ?room - {sid},
                      System_message
                        (System (?u @ '' left the chat'') (toLocaleTimeString clk')
                           (''system-'' @ toString_nat (now clk') @ ''-'' @ sid))), e])" for clk'
    using disconnect_member [of st1 sid "\<lparr>ui_username = ?u, ui_room = ?room\<rparr>" r1 clk']
      ui r1 mem
    by (simp add: remove_user_eq)
  from raw sys m1 m2 ui leave disc show ?thesis by blast
qed

text \<open>C9 as amended, in the run above.\<close>

theorem system_messages_show_names_witness:
  "join_room init ''s1'' clk0 \<lparr>jp_username = Some '' Alice12! '', jp_roomId = Some ''team''\<rparr> =
     Inr (st_team_raw,
          [({''s1''}, Chat_history []),
           ({''s1''}, User_list [alice_member ''s1'']),
           ({''s1''}, System_message
              (System '' Alice12!  joined the chat'' ''10:00:00 AM'' ''system-1700000000000-s1'')),
           ({''s1''}, Join_success)]) \<and>
   members st_team_raw ''team'' ''alice12!'' = Some (alice_member ''s1'') \<and>
   socketToUserMap st_team_raw ''s1'' = Some \<lparr>ui_username = ''alice12!'', ui_room = ''team''\<rparr> \<and>
   (\<exists>st2 e.
      leave_room st_team_raw ''s1'' clk1 (Some ''team'') =
        Inr (st2, [({''s1''}, System_message
                      (System ''alice12! left the chat'' ''10:00:01 AM''
                         ''system-1700000000500-s1'')), e])) \<and>
   (\<exists>st2 e.
      disconnect st_team_raw ''s1'' clk1 =
        Inr (st2, [({}, System_message
                      (System ''alice12! left the chat'' ''10:00:01 AM''
                         ''system-1700000000500-s1'')), e]))"
proof -
  have s: "({''s1''}, Join_success) \<in> set
          [({''s1''}, Chat_history []),
           ({''s1''}, User_list [alice_member ''s1'']),
           ({''s1''}, System_message
              (System '' Alice12!  joined the chat'' ''10:00:00 AM'' ''system-1700000000000-s1'')),
           ({''s1''}, Join_success)]"
    by simp
  have ad: "adapter st_team_raw ''team'' = {''s1''}" by (simp add: st_team_raw_def)
  from system_messages_show_names [OF join_team_raw s]
  have "members st_team_raw ''team'' ''alice12!'' = Some (alice_member ''s1'') \<and>
   socketToUserMap st_team_raw ''s1'' = Some \<lparr>ui_username = ''alice12!'', ui_room = ''team''\<rparr> \<and>
   (\<forall>clk'. \<exists>st2 e.
      leave_room st_team_raw ''s1'' clk' (Some ''team'') =
        Inr (st2, [({''s1''}, System_message
                      (System ''alice12! left the chat'' (toLocaleTimeString clk')
                         (''system-'' @ toString_nat (now clk') @ ''-'' @ ''s1''))), e])) \<and>
   (\<forall>clk'. \<exists>st2 e.
      disconnect st_team_raw ''s1'' clk' =
        Inr (st2, [({}, System_message
                      (System ''alice12! left the chat'' (toLocaleTimeString clk')
                         (''system-'' @ toString_nat (now clk') @ ''-'' @ ''s1''))), e]))"
    by (simp add: resolve_room_def standardize_Alice_padded alice_member_def ad)
  then have "members st_team_raw ''team'' ''alice12!'' = Some (alice_member ''s1'')"
    and "socketToUserMap st_team_raw ''s1'' =
      Some \<lparr>ui_username = ''alice12!'', ui_room = ''team''\<rparr>"
    and "\<exists>st2 e.
      leave_room st_team_raw ''s1'' clk1 (Some ''team'') =
        Inr (st2, [({''s1''}, System_message
                      (System ''alice12! left the chat'' (toLocaleTimeString clk1)
                         (''system-'' @ toString_nat (now clk1) @ ''-'' @ ''s1''))), e])"
    and "\<exists>st2 e.
      disconnect st_team_raw ''s1'' clk1 =
        Inr (st2, [({}, System_message
                      (System ''alice12! left the chat'' (toLocaleTimeString clk1)
                         (''system-'' @ toString_nat (now clk1) @ ''-'' @ ''s1''))), e])"
    by blast+
  with join_team_raw show ?thesis
    by (simp add: clk1_def toString_nat_clk1)
qed

section \<open>Messages\<close>

lemma send_message_well_formed:
  assumes "rooms st (resolve_room (sp_roomId p)) = Some r"
    and "sp_messageData p = Some md"
    and "md_username md = Some u" and "md_message md = Some b" and "md_time md = Some t"
    and "u \<noteq> []" and "b \<noteq> []" and "t \<noteq> []"
  shows "send_message st sid clk p =
     Inr (st\<lparr>rooms := (rooms st)(resolve_room (sp_roomId p) \<mapsto>
               r\<lparr>messages := messages r @
                  [Chat u b t sid (toString_nat (now clk) @ ''-'' @ sid)]\<rparr>)\<rparr>,
          [(adapter st (resolve_room (sp_roomId p)),
            Receive_message (Chat u b t sid (toString_nat (now clk) @ ''-'' @ sid)))])"
  using assms by (simp add: send_message_def Let_def rooms_get_def io_to_def)

lemma send_message_malformed:
  assumes "sp_messageData p = None \<or>
     (\<exists>md. sp_messageData p = Some md \<and>
        (md_username md \<in> {None, Some []} \<or> md_message md \<in> {None, Some []} \<or>
         md_time md \<in> {None, Some []}))"
  shows "send_message st sid clk p = Inr (st, [])"
  using assms by (auto simp: send_message_def Let_def split: option.splits)

text \<open>
  C8 as stated fails in one word: the id is not fresh. Two messages of one socket within
  the same millisecond get the same id \<open>{Date.now()}-{socket.id}\<close>: after \<open>s1\<close> has sent \<open>hi\<close>
  at \<open>clk1\<close>, its next message at \<open>clk1\<close> is stored under the id the history already holds.
\<close>

theorem message_id_repeats:
  "send_message st_team ''s1'' clk1 (hi_payload ''hi'') =
     Inr (st_msg, [({''s1''}, Receive_message hi_message)]) \<and>
   history st_msg ''team'' = [alice_joined, hi_message] \<and>
   messageId hi_message = ''1700000000500-s1'' \<and>
   send_message st_msg ''s1'' clk1 (hi_payload ''again'') =
     Inr (st_msg\<lparr>rooms := (rooms st_msg)(''team'' \<mapsto>
                  \<lparr>users = [(''alice12!'', alice_member ''s1'')],
                   messages = [alice_joined, hi_message,
                     Chat ''alice12!'' ''again'' ''10:00:01 AM'' ''s1'' ''1700000000500-s1'']\<rparr>)\<rparr>,
          [({''s1''}, Receive_message
             (Chat ''alice12!'' ''again'' ''10:00:01 AM'' ''s1'' ''1700000000500-s1''))])"
  using send_hi send_again by (simp add: history_def st_msg_def hi_message_def)

text \<open>
  C8 as amended. Provided the resolved room has an entry, \<open>send_message\<close> appends the record
  to that room's history, with the sender's socket id attached as \<open>userId\<close> and the
  server-assigned id \<open>{Date.now()}-{socket.id}\<close>, and broadcasts it to every socket in the
  room with no socket excluded, if and only if the payload carries a non-empty username, a
  non-empty message and a non-empty time. Nothing is asked of the sender's entry in
  \<open>socketToUserMap\<close>. When one of the three fields is missing or empty, the event is dropped:
  the state is unchanged and nothing is emitted.
\<close>

theorem send_message_accepts_well_formed:
  assumes "rooms st (resolve_room (sp_roomId p)) = Some r"
  shows "(\<forall>md u b t.
        sp_messageData p = Some md \<and> md_username md = Some u \<and> md_message md = Some b \<and>
        md_time md = Some t \<and> u \<noteq> [] \<and> b \<noteq> [] \<and> t \<noteq> [] \<longrightarrow>
        send_message st sid clk p =
          Inr (st\<lparr>rooms := (rooms st)(resolve_room (sp_roomId p) \<mapsto>
                    r\<lparr>messages := messages r @
                       [Chat u b t sid (toString_nat (now clk) @ ''-'' @ sid)]\<rparr>)\<rparr>,
               [(adapter st (resolve_room (sp_roomId p)),
                 Receive_message (Chat u b t sid (toString_nat (now clk) @ ''-'' @ sid)))])) \<and>
     (sp_messageData p = None \<or>
      (\<exists>md. sp_messageData p = Some md \<and>
         (md_username md \<in> {None, Some []} \<or> md_message md \<in> {None, Some []} \<or>
          md_time md \<in> {None, Some []})) \<longrightarrow>
      send_message st sid clk p = Inr (st, [])) \<and>
     ((send_message st sid clk p \<noteq> Inr (st, [])) =
      (\<exists>md u b t.
         sp_messageData p = Some md \<and> md_username md = Some u \<and> md_message md = Some b \<and>
         md_time md = Some t \<and> u \<noteq> [] \<and> b \<noteq> [] \<and> t \<noteq> []))"
proof (intro conjI allI impI)
  fix md u b t
  assume "sp_messageData p = Some md \<and> md_username md = Some u \<and> md_message md = Some b \<and>
        md_time md = Some t \<and> u \<noteq> [] \<and> b \<noteq> [] \<and> t \<noteq> []"
  then show "send_message st sid clk p =
          Inr (st\<lparr>rooms := (rooms st)(resolve_room (sp_roomId p) \<mapsto>
                    r\<lparr>messages := messages r @
                       [Chat u b t sid (toString_nat (now clk) @ ''-'' @ sid)]\<rparr>)\<rparr>,
               [(adapter st (resolve_room (sp_roomId p)),
                 Receive_message (Chat u b t sid (toString_nat (now clk) @ ''-'' @ sid)))])"
    using send_message_well_formed [OF assms] by blast
next
  assume "sp_messageData p = None \<or>
      (\<exists>md. sp_messageData p = Some md \<and>
         (md_username md \<in> {None, Some []} \<or> md_message md \<in> {None, Some []} \<or>
          md_time md \<in> {None, Some []}))"
  then show "send_message st sid clk p = Inr (st, [])"
    by (rule send_message_malformed)
next
  show "(send_message st sid clk p \<noteq> Inr (st, [])) =
      (\<exists>md u b t.
         sp_messageData p = Some md \<and> md_username md = Some u \<and> md_message md = Some b \<and>
         md_time md = Some t \<and> u \<noteq> [] \<and> b \<noteq> [] \<and> t \<noteq> [])"
  proof
    assume ne: "send_message st sid clk p \<noteq> Inr (st, [])"
    show "\<exists>md u b t.
         sp_messageData p = Some md \<and> md_username md = Some u \<and> md_message md = Some b \<and>
         md_time md = Some t \<and> u \<noteq> [] \<and> b \<noteq> [] \<and> t \<noteq> []"
    proof (rule ccontr)
      assume "\<not> (\<exists>md u b t.
         sp_messageData p = Some md \<and> md_username md = Some u \<and> md_message md = Some b \<and>
         md_time md = Some t \<and> u \<noteq> [] \<and> b \<noteq> [] \<and> t \<noteq> [])"
      then have "sp_messageData p = None \<or>
        (\<exists>md. sp_messageData p = Some md \<and>
          (md_username md \<in> {None, Some []} \<or> md_message md \<in> {None, Some []} \<or>
           md_time md \<in> {None, Some []}))"
        by (cases "sp_messageData p") (simp, simp, metis option.exhaust)
      then have "send_message st sid clk p = Inr (st, [])" by (rule send_message_malformed)
      with ne show False by simp
    qed
  next
    assume "\<exists>md u b t.
         sp_messageData p = Some md \<and> md_username md = Some u \<and> md_message md = Some b \<and>
         md_time md = Some t \<and> u \<noteq> [] \<and> b \<noteq> [] \<and> t \<noteq> []"
    then obtain md u b t where
      "sp_messageData p = Some md" "md_username md = Some u" "md_message md = Some b"
      "md_time md = Some t" "u \<noteq> []" "b \<noteq> []" "t \<noteq> []"
      by blast
    from send_message_well_formed [OF assms this]
    show "send_message st sid clk p \<noteq> Inr (st, [])" by simp
  qed
qed

text \<open>
  C8 as amended, in the scenario: \<open>s9\<close> has no session and its message to \<open>team\<close> is stored
  and sent to the room; the message of the member \<open>s1\<close> reaches \<open>s1\<close> too; a payload with an
  empty message is dropped.
\<close>

theorem send_message_accepts_well_formed_witness:
  "rooms st_team (resolve_room (Some ''team'')) =
     Some \<lparr>users = [(''alice12!'', alice_member ''s1'')], messages = [alice_joined]\<rparr> \<and>
   socketToUserMap st_team ''s9'' = None \<and>
   send_message st_team ''s9'' clk1 (hi_payload ''hi'') =
     Inr (st_team\<lparr>rooms := (rooms st_team)(''team'' \<mapsto>
                  \<lparr>users = [(''alice12!'', alice_member ''s1'')],
                   messages = [alice_joined,
                     Chat ''alice12!'' ''hi'' ''10:00:01 AM'' ''s9'' ''1700000000500-s9'']\<rparr>)\<rparr>,
          [({''s1''}, Receive_message
             (Chat ''alice12!'' ''hi'' ''10:00:01 AM'' ''s9'' ''1700000000500-s9''))]) \<and>
   send_message st_team ''s1'' clk1 (hi_payload ''hi'') =
     Inr (st_msg, [({''s1''}, Receive_message hi_message)]) \<and>
   send_message st_team ''s1'' clk1 (hi_payload []) = Inr (st_team, [])"
proof -
  have r: "rooms st_team (resolve_room (Some ''team'')) =
     Some \<lparr>users = [(''alice12!'', alice_member ''s1'')], messages = [alice_joined]\<rparr>"
    by (simp add: resolve_room_def st_team_def)
  have r': "rooms st_team (resolve_room (sp_roomId (hi_payload body))) =
     Some \<lparr>users = [(''alice12!'', alice_member ''s1'')], messages = [alice_joined]\<rparr>" for body
    using r by (simp add: hi_payload_def)
  have none: "socketToUserMap st_team ''s9'' = None" by (simp add: st_team_def)
  have wf: "sp_messageData (hi_payload ''hi'') =
        Some \<lparr>md_username = Some ''alice12!'', md_message = Some ''hi'',
              md_time = Some ''10:00:01 AM''\<rparr> \<and>
      md_username \<lparr>md_username = Some ''alice12!'', md_message = Some ''hi'',
              md_time = Some ''10:00:01 AM''\<rparr> = Some ''alice12!'' \<and>
      md_message \<lparr>md_username = Some ''alice12!'', md_message = Some ''hi'',
              md_time = Some ''10:00:01 AM''\<rparr> = Some ''hi'' \<and>
      md_time \<lparr>md_username = Some ''alice12!'', md_message = Some ''hi'',
              md_time = Some ''10:00:01 AM''\<rparr> = Some ''10:00:01 AM'' \<and>
      ''alice12!'' \<noteq> [] \<and> ''hi'' \<noteq> [] \<and> ''10:00:01 AM'' \<noteq> []"
    by (simp add: hi_payload_def)
  have bad: "sp_messageData (hi_payload []) = None \<or>
      (\<exists>md. sp_messageData (hi_payload []) = Some md \<and>
         (md_username md \<in> {None, Some []} \<or> md_message md \<in> {None, Some []} \<or>
          md_time md \<in> {None, Some []}))"
    by (simp add: hi_payload_def)
  note t = send_message_accepts_well_formed [OF r']
  from t [of "''hi''" "''s9''" clk1] wf have a:
    "send_message st_team ''s9'' clk1 (hi_payload ''hi'') =
     Inr (st_team\<lparr>rooms := (rooms st_team)(''team'' \<mapsto>
                  \<lparr>users = [(''alice12!'', alice_member ''s1'')],
                   messages = [alice_joined,
                     Chat ''alice12!'' ''hi'' ''10:00:01 AM'' ''s9'' ''1700000000500-s9'']\<rparr>)\<rparr>,
          [({''s1''}, Receive_message
             (Chat ''alice12!'' ''hi'' ''10:00:01 AM'' ''s9'' ''1700000000500-s9''))])"
    by (simp add: hi_payload_def resolve_room_def clk1_def toString_nat_clk1 st_team_def)
  from t [of "''hi''" "''s1''" clk1] wf have b:
    "send_message st_team ''s1'' clk1 (hi_payload ''hi'') =
     Inr (st_msg, [({''s1''}, Receive_message hi_message)])"
    by (simp add: hi_payload_def resolve_room_def clk1_def toString_nat_clk1 st_team_def
        st_msg_def hi_message_def)
  from t [of "[]" "''s1''" clk1] bad have c:
    "send_message st_team ''s1'' clk1 (hi_payload []) = Inr (st_team, [])"
    by blast
  from r none a b c show ?thesis by blast
qed

section \<open>The life of a room\<close>











section \<open>Faults\<close>

text \<open>
  C1. The claim is that no event makes a handler throw. In the initial state, a well-formed
  \<open>send_message\<close> that names a room without an entry throws at
  \<open>rooms[room].messages.push\<close>, and a \<open>join_room\<close> whose payload has no \<open>username\<close> throws at
  \<open>username.trim()\<close>. A room name that is a property of \<open>Object.prototype\<close> makes
  \<open>check_room\<close> throw too: \<open>rooms['toString']\<close> is a function, its \<open>users\<close> is \<open>undefined\<close>,
  and \<open>Object.keys\<close> throws on it.
\<close>

theorem handlers_throw:
  "send_message init ''s1'' clk0
     \<lparr>sp_messageData = Some \<lparr>md_username = Some ''alice12!'', md_message = Some ''hi'',
                              md_time = Some ''10:00:00 AM''\<rparr>,
      sp_roomId = Some ''nope''\<rparr> = Inl TypeError \<and>
   join_room init ''s1'' clk0 \<lparr>jp_username = None, jp_roomId = Some ''team''\<rparr> = Inl TypeError \<and>
   check_room init ''s1'' (Some ''toString'') = Inl TypeError"
  by (simp add: send_message_def join_room_def check_room_def lookup_defs init_def
      object_prototype_keys_def)

text \<open>
  C2. The claim is that \<open>rooms\<close> and \<open>socketToUserMap\<close> agree in every reachable state, and
  that a second join of a socket leaves no stale member behind. \<open>s1\<close> joins \<open>team\<close> as
  \<open>alice12!\<close> and then \<open>dev\<close> as \<open>bobby34!\<close>: \<open>alice12!\<close> stays a member of \<open>team\<close> held by \<open>s1\<close>,
  while the one entry of \<open>s1\<close> in \<open>socketToUserMap\<close> now names \<open>(bobby34!, dev)\<close>. When \<open>s1\<close>
  then disconnects, only \<open>dev\<close> is cleaned up, and \<open>alice12!\<close> remains in \<open>team\<close> with no
  socket behind it.
\<close>

theorem second_join_leaves_stale_member:
  "join_room init ''s1'' clk0 \<lparr>jp_username = Some ''alice12!'', jp_roomId = Some ''team''\<rparr> =
     Inr (st_team,
          [({''s1''}, Chat_history []),
           ({''s1''}, User_list [alice_member ''s1'']),
           ({''s1''}, System_message alice_joined),
           ({''s1''}, Join_success)]) \<and>
   join_room st_team ''s1'' clk1 \<lparr>jp_username = Some ''bobby34!'', jp_roomId = Some ''dev''\<rparr> =
     Inr (st_stale,
          [({''s1''}, Chat_history []),
           ({''s1''}, User_list [bobby_member ''s1'']),
           ({''s1''}, System_message
              (System ''bobby34! joined the chat'' ''10:00:01 AM'' ''system-1700000000500-s1'')),
           ({''s1''}, Join_success)]) \<and>
   members st_stale ''team'' ''alice12!'' = Some (alice_member ''s1'') \<and>
   socketToUserMap st_stale ''s1'' = Some \<lparr>ui_username = ''bobby34!'', ui_room = ''dev''\<rparr> \<and>
   (case disconnect st_stale ''s1'' clk2 of
      Inl e \<Rightarrow> False
    | Inr (st', out) \<Rightarrow>
        members st' ''team'' ''alice12!'' = Some (alice_member ''s1'') \<and>
        socketToUserMap st' ''s1'' = None \<and> rooms st' ''dev'' = None)"
proof -
  have "members st_stale ''team'' ''alice12!'' = Some (alice_member ''s1'')"
    and "socketToUserMap st_stale ''s1'' = Some \<lparr>ui_username = ''bobby34!'', ui_room = ''dev''\<rparr>"
    by (simp_all add: members_def st_stale_def)
  moreover have "case disconnect st_stale ''s1'' clk2 of
      Inl e \<Rightarrow> False
    | Inr (st', out) \<Rightarrow>
        members st' ''team'' ''alice12!'' = Some (alice_member ''s1'') \<and>
        socketToUserMap st' ''s1'' = None \<and> rooms st' ''dev'' = None"
    by (simp add: disconnect_def remove_user_def lookup_defs emit_defs st_stale_def members_def
        bobby_member_def bobby_not_inherited Let_def AList.delete_eq)
  ultimately show ?thesis using join_team_alice join_dev_bobby_again by blast
qed

end
